theory Spec2Isabelle
  imports
    Main
    "HOL-Library.Word"
    "HOL-Library.AList"
    "HOL-Library.Char_ord"
    "HOL-Library.List_Lexorder"
begin

unbundle bit_operations_syntax

section \<open>Python values and exceptions\<close>

text \<open>
  The security core of the backend (\<open>security/encryption.py\<close>, \<open>security/jwt.py\<close>,
  \<open>security/authorization.py\<close>, \<open>security/authentication.py\<close>, \<open>config/security.py\<close>)
  is embedded function by function. Python objects become records that are passed in and
  returned updated, every \<open>raise\<close> becomes an \<open>Inl\<close> result, and the wall clock, the random
  sources (\<open>os.urandom\<close>, \<open>secrets\<close>, \<open>uuid.uuid4\<close>) and the third-party libraries
  (\<open>cryptography\<close>, \<open>python-jose\<close>, \<open>base64\<close>, the Redis client, the rate limiter) are
  arguments of the functions that use them. Logger calls have no effect on results and
  are left out. Times are whole seconds.
\<close>

type_synonym bytes = "8 word list"

text \<open>JSON-like values as they appear in token claims. A dict keeps insertion order.\<close>

datatype pyval =
    PNone
  | PBool bool
  | PInt int
  | PStr string
  | PList "pyval list"
  | PDict "(string \<times> pyval) list"

type_synonym pydict = "(string \<times> pyval) list"

datatype jwt_kind = JWTErrorBase | ExpiredSignatureError | JWTClaimsError

text \<open>
  The exceptions that can travel through the modelled code. \<open>ValidationException\<close> and
  \<open>AuthenticationException\<close> carry message, error code and the cause whose \<open>str\<close> the
  source stores under \<open>details["error"]\<close>. \<open>JWTError k\<close> stands for python-jose's
  \<open>JWTError\<close> and its two subclasses.
\<close>

datatype pyexc =
    ValidationException string string "pyexc option"
  | AuthenticationException string string "pyexc option"
  | JWTError jwt_kind
  | InvalidTag
  | ValueError
  | TypeError
  | AttributeError
  | UnboundLocalError
  | KeyError
  | BinasciiError
  | UnicodeDecodeError
  | UnicodeEncodeError
  | RedisError

text \<open>\<open>utils/constants.py\<close>, \<open>ErrorCodes\<close>.\<close>

definition AUTH_FAILED :: string where "AUTH_FAILED = ''auth_001''"
definition INVALID_TOKEN :: string where "INVALID_TOKEN = ''auth_002''"
definition RATE_LIMITED :: string where "RATE_LIMITED = ''api_001''"

text \<open>\<open>d.get(k)\<close> and \<open>d.get(k, default)\<close>.\<close>

definition dict_get :: "pydict \<Rightarrow> string \<Rightarrow> pyval" where
  "dict_get d k = (case map_of d k of None \<Rightarrow> PNone | Some v \<Rightarrow> v)"

definition dict_get_default :: "pydict \<Rightarrow> string \<Rightarrow> pyval \<Rightarrow> pyval" where
  "dict_get_default d k dflt = (case map_of d k of None \<Rightarrow> dflt | Some v \<Rightarrow> v)"

text \<open>\<open>d.update({...})\<close>: each pair in turn, an existing key keeps its place.\<close>

definition dict_update :: "pydict \<Rightarrow> pydict \<Rightarrow> pydict" where
  "dict_update d new = fold (\<lambda>(k, v) acc. AList.update k v acc) new d"

text \<open>Truth value of an object, as \<open>if x\<close> and \<open>not x\<close> test it.\<close>

fun py_truthy :: "pyval \<Rightarrow> bool" where
  "py_truthy PNone = False"
| "py_truthy (PBool b) = b"
| "py_truthy (PInt i) = (i \<noteq> 0)"
| "py_truthy (PStr s) = (s \<noteq> [])"
| "py_truthy (PList xs) = (xs \<noteq> [])"
| "py_truthy (PDict d) = (d \<noteq> [])"

text \<open>\<open>hash(x)\<close> succeeds on these values except on lists and dicts.\<close>

fun py_hashable :: "pyval \<Rightarrow> bool" where
  "py_hashable (PList xs) = False"
| "py_hashable (PDict d) = False"
| "py_hashable v = True"



section \<open>cachetools.TTLCache\<close>

text \<open>
  A \<open>TTLCache\<close> holds at most \<open>maxsize\<close> entries, each with the time at which it lapses.
  The list is in the order in which the cache would discard entries when full (least
  recently used first). A lookup of a live key moves it to the end; storing drops the
  lapsed entries first, then makes room.
\<close>

record ('k, 'v) ttl_cache =
  maxsize :: nat
  ttl :: int
  links :: "('k \<times> int \<times> 'v) list"

definition TTLCache :: "nat \<Rightarrow> int \<Rightarrow> ('k, 'v) ttl_cache" where
  "TTLCache m t = \<lparr>maxsize = m, ttl = t, links = []\<rparr>"

definition ttl_contains :: "('k, 'v) ttl_cache \<Rightarrow> int \<Rightarrow> 'k \<Rightarrow> bool" where
  "ttl_contains c now k =
     (case map_of (links c) k of None \<Rightarrow> False | Some (e, v) \<Rightarrow> now < e)"


text \<open>\<open>cache[k]\<close>: \<open>None\<close> is \<open>KeyError\<close>.\<close>

definition ttl_getitem :: "('k, 'v) ttl_cache \<Rightarrow> int \<Rightarrow> 'k \<Rightarrow> 'v option \<times> ('k, 'v) ttl_cache" where
  "ttl_getitem c now k =
     (case map_of (links c) k of
        None \<Rightarrow> (None, c)
      | Some (e, v) \<Rightarrow>
          (if now < e then Some v else None,
           c\<lparr>links := filter (\<lambda>l. fst l \<noteq> k) (links c) @ [(k, e, v)]\<rparr>))"

definition ttl_expire :: "('k, 'v) ttl_cache \<Rightarrow> int \<Rightarrow> ('k \<times> int \<times> 'v) list" where
  "ttl_expire c now = filter (\<lambda>l. now < fst (snd l)) (links c)"

text \<open>\<open>cache[k] = v\<close> with values of size 1; \<open>maxsize\<close> is positive in every use.\<close>

definition ttl_setitem :: "('k, 'v) ttl_cache \<Rightarrow> int \<Rightarrow> 'k \<Rightarrow> 'v \<Rightarrow> ('k, 'v) ttl_cache" where
  "ttl_setitem c now k v =
     (let live = ttl_expire c now;
          room = (if k \<in> fst ` set live then filter (\<lambda>l. fst l \<noteq> k) live
                  else drop (length live + 1 - maxsize c) live)
      in c\<lparr>links := room @ [(k, now + ttl c, v)]\<rparr>)"


section \<open>security/jwt.py\<close>

definition ACCESS_TOKEN_EXPIRE_MINUTES :: int where "ACCESS_TOKEN_EXPIRE_MINUTES = 30"
definition REFRESH_TOKEN_EXPIRE_DAYS :: int where "REFRESH_TOKEN_EXPIRE_DAYS = 7"
definition TOKEN_BLACKLIST_SIZE :: nat where "TOKEN_BLACKLIST_SIZE = 10000"
definition MAX_TOKEN_CACHE_SIZE :: nat where "MAX_TOKEN_CACHE_SIZE = 1000"

text \<open>
  python-jose, as the handler calls it: \<open>jwt.encode(claims, key, algorithm)\<close>,
  \<open>jwt.decode(token, key, algorithms)\<close> read at a given clock value (it checks the
  signature and \<open>exp\<close>), and \<open>jwt.get_unverified_claims(token)\<close>.
\<close>

record jose =
  jwt_encode :: "pydict \<Rightarrow> bytes \<Rightarrow> string \<Rightarrow> pyexc + string"
  jwt_decode :: "string \<Rightarrow> bytes \<Rightarrow> string list \<Rightarrow> int \<Rightarrow> pyexc + pydict"
  jwt_get_unverified_claims :: "string \<Rightarrow> pyexc + pydict"

record JWTHandler =
  secret_key :: bytes
  algorithm :: string
  token_blacklist :: "(string, pyval) ttl_cache"
  token_cache :: "(string, string) ttl_cache"

text \<open>\<open>JWTHandler.__init__\<close>; the secret is \<open>SECRET_KEY\<close> of \<open>config/security.py\<close>.\<close>

definition JWTHandler_init :: "bytes \<Rightarrow> JWTHandler" where
  "JWTHandler_init SECRET_KEY =
     \<lparr>secret_key = SECRET_KEY,
      algorithm = ''HS256'',
      token_blacklist = TTLCache TOKEN_BLACKLIST_SIZE (REFRESH_TOKEN_EXPIRE_DAYS * 24 * 3600),
      token_cache = TTLCache MAX_TOKEN_CACHE_SIZE (ACCESS_TOKEN_EXPIRE_MINUTES * 60)\<rparr>"

text \<open>
  The body of \<open>create_token\<close>, the function the \<open>@cached\<close> decorator wraps. \<open>uuid\<close> is the
  string \<open>uuid.uuid4()\<close> returns in this run, \<open>expires_delta\<close> a number of seconds;
  a zero \<open>timedelta\<close> is falsy and takes the default. \<open>roles\<close> is annotated
  \<open>List[str]\<close> and \<open>permissions\<close> \<open>Dict[str, Any]\<close>; the body stores whatever it is given.
\<close>

definition token_data :: "int \<Rightarrow> string \<Rightarrow> pydict \<Rightarrow> pyval \<Rightarrow> pyval \<Rightarrow> int option \<Rightarrow> pydict" where
  "token_data now uuid data roles permissions expires_delta =
     (let expire = now + (case expires_delta of
                            None \<Rightarrow> ACCESS_TOKEN_EXPIRE_MINUTES * 60
                          | Some d \<Rightarrow> if d \<noteq> 0 then d else ACCESS_TOKEN_EXPIRE_MINUTES * 60)
      in dict_update data
           [(''exp'', PInt expire),
            (''iat'', PInt now),
            (''jti'', PStr uuid),
            (''roles'', roles),
            (''permissions'', permissions),
            (''token_version'', PStr ''1.0'')])"

definition create_token_body ::
  "jose \<Rightarrow> JWTHandler \<Rightarrow> int \<Rightarrow> string \<Rightarrow> pydict \<Rightarrow> pyval \<Rightarrow> pyval \<Rightarrow> int option
    \<Rightarrow> pyexc + string" where
  "create_token_body L h now uuid data roles permissions expires_delta =
     (case jwt_encode L (token_data now uuid data roles permissions expires_delta)
             (secret_key h) (algorithm h) of
        Inr encoded_token \<Rightarrow> Inr encoded_token
      | Inl e \<Rightarrow> Inl (AuthenticationException ''Failed to create authentication token''
                        AUTH_FAILED (Some e)))"

text \<open>
  \<open>@cached(cache=TTLCache(maxsize=MAX_TOKEN_CACHE_SIZE, ttl=300))\<close>: the wrapper builds
  the key from the call's arguments, looks it up, and only on a miss runs the body and
  stores the result. Looking the key up hashes every argument. The handler object
  itself, also part of the key, is hashable and left out.
\<close>

definition hashkey :: "pydict \<Rightarrow> pyval \<Rightarrow> pyval \<Rightarrow> int option \<Rightarrow> pyval list" where
  "hashkey data roles permissions expires_delta =
     [PDict data, roles, permissions,
      (case expires_delta of None \<Rightarrow> PNone | Some d \<Rightarrow> PInt d)]"

definition create_token ::
  "jose \<Rightarrow> JWTHandler \<Rightarrow> (pyval list, string) ttl_cache \<Rightarrow> int \<Rightarrow> string \<Rightarrow> pydict
    \<Rightarrow> pyval \<Rightarrow> pyval \<Rightarrow> int option
    \<Rightarrow> (pyexc + string) \<times> (pyval list, string) ttl_cache" where
  "create_token L h cache now uuid data roles permissions expires_delta =
     (let k = hashkey data roles permissions expires_delta in
      if \<not> list_all py_hashable k then (Inl TypeError, cache)
      else case ttl_getitem cache now k of
             (Some v, cache') \<Rightarrow> (Inr v, cache')
           | (None, cache') \<Rightarrow>
               (case create_token_body L h now uuid data roles permissions expires_delta of
                  Inl e \<Rightarrow> (Inl e, cache')
                | Inr v \<Rightarrow> (Inr v, ttl_setitem cache' now k v)))"

definition is_JWTError :: "pyexc \<Rightarrow> bool" where
  "is_JWTError e = (case e of JWTError k \<Rightarrow> True | _ \<Rightarrow> False)"

definition verify_token :: "jose \<Rightarrow> JWTHandler \<Rightarrow> int \<Rightarrow> string \<Rightarrow> pyexc + pydict" where
  "verify_token L h now token =
     (if ttl_contains (token_blacklist h) now token
      then Inl (AuthenticationException ''Token has been revoked'' INVALID_TOKEN None)
      else case jwt_decode L token (secret_key h) [algorithm h] now of
             Inl e \<Rightarrow>
               if is_JWTError e
               then Inl (AuthenticationException ''Invalid authentication token''
                           INVALID_TOKEN (Some e))
               else Inl e
           | Inr payload \<Rightarrow>
               if dict_get payload ''token_version'' \<noteq> PStr ''1.0''
               then Inl (AuthenticationException ''Invalid token version'' INVALID_TOKEN None)
               else Inr payload)"

text \<open>\<open>blacklist_token\<close> swallows every exception.\<close>

definition blacklist_token :: "jose \<Rightarrow> JWTHandler \<Rightarrow> int \<Rightarrow> string \<Rightarrow> JWTHandler" where
  "blacklist_token L h now token =
     (case jwt_get_unverified_claims L token of
        Inl e \<Rightarrow> h
      | Inr payload \<Rightarrow>
          h\<lparr>token_blacklist :=
               ttl_setitem (token_blacklist h) now token (dict_get payload ''jti'')\<rparr>)"




section \<open>security/authorization.py\<close>

definition UserRole_values :: "string list" where
  "UserRole_values = [''super_admin'', ''org_admin'', ''standard_user'', ''integration_user'']"

definition Permission_values :: "string list" where
  "Permission_values =
     [''read_data'', ''write_data'', ''manage_templates'', ''configure_integrations'',
      ''manage_users'']"

definition role_permissions :: "(string \<times> string list) list" where
  "role_permissions =
     [(''super_admin'', Permission_values),
      (''org_admin'', [''read_data'', ''write_data'', ''manage_templates'',
                       ''configure_integrations'', ''manage_users'']),
      (''standard_user'', [''read_data'', ''write_data'', ''manage_templates'']),
      (''integration_user'', [''read_data''])]"

definition role_hierarchy :: "(string \<times> string list) list" where
  "role_hierarchy =
     [(''super_admin'', UserRole_values),
      (''org_admin'', [''org_admin'', ''standard_user'', ''integration_user'']),
      (''standard_user'', [''standard_user'', ''integration_user'']),
      (''integration_user'', [''integration_user''])]"

text \<open>
  One \<open>TTLCache\<close> serves both methods: \<open>verify_permission\<close> stores a bool under
  \<open>token:permission\<close>, \<open>get_user_permissions\<close> stores a list under the role name.
\<close>

datatype cache_val = CBool bool | CPerms "string list"

record RBACHandler =
  jwt_handler :: JWTHandler
  permission_cache :: "(string, cache_val) ttl_cache"

definition RBACHandler_init :: "bytes \<Rightarrow> RBACHandler" where
  "RBACHandler_init SECRET_KEY =
     \<lparr>jwt_handler = JWTHandler_init SECRET_KEY, permission_cache = TTLCache 1000 300\<rparr>"

definition own_permissions :: "string \<Rightarrow> string list" where
  "own_permissions role = (case map_of role_permissions role of None \<Rightarrow> [] | Some ps \<Rightarrow> ps)"

text \<open>
  The part of \<open>verify_permission\<close> inside \<open>try\<close>, up to the loop's result. A role claim
  that is not a string is looked up in a dict with string keys: unhashable values raise,
  the others are not found.
\<close>

definition resolve_permission :: "jose \<Rightarrow> JWTHandler \<Rightarrow> int \<Rightarrow> string \<Rightarrow> string \<Rightarrow> pyexc + bool" where
  "resolve_permission L h now token required_permission =
     (case verify_token L h now token of
        Inl e \<Rightarrow> Inl e
      | Inr payload \<Rightarrow>
          (let user_role = dict_get payload ''role'' in
           if \<not> py_truthy user_role
           then Inl (AuthenticationException ''Invalid role in token'' ''auth_002'' None)
           else if \<not> py_hashable user_role then Inl TypeError
           else
             (let inherited_roles =
                    (case user_role of
                       PStr r \<Rightarrow> (case map_of role_hierarchy r of None \<Rightarrow> [] | Some rs \<Rightarrow> rs)
                     | _ \<Rightarrow> [])
              in Inr (list_ex (\<lambda>role. required_permission \<in> set (own_permissions role))
                        inherited_roles))))"

definition verify_permission ::
  "jose \<Rightarrow> RBACHandler \<Rightarrow> int \<Rightarrow> string \<Rightarrow> string \<Rightarrow> cache_val \<times> RBACHandler" where
  "verify_permission L rb now token required_permission =
     (let cache_key = token @ '':'' @ required_permission in
      if ttl_contains (permission_cache rb) now cache_key
      then (case ttl_getitem (permission_cache rb) now cache_key of
              (Some v, c') \<Rightarrow> (v, rb\<lparr>permission_cache := c'\<rparr>)
            | (None, c') \<Rightarrow> (CBool False, rb\<lparr>permission_cache := c'\<rparr>))
      else case resolve_permission L (jwt_handler rb) now token required_permission of
             Inl e \<Rightarrow> (CBool False, rb)
           | Inr has_perm \<Rightarrow>
               (CBool has_perm,
                rb\<lparr>permission_cache :=
                     ttl_setitem (permission_cache rb) now cache_key (CBool has_perm)\<rparr>))"

text \<open>
  \<open>get_user_permissions\<close>: a cached entry is returned as it is; an unknown role raises
  \<open>ValueError\<close> inside \<open>try\<close>, which the handler turns into the empty list.
\<close>

definition combined_permissions :: "string list \<Rightarrow> string list" where
  "combined_permissions inherited_roles =
     sort (remdups (concat (map own_permissions inherited_roles)))"

definition get_user_permissions ::
  "RBACHandler \<Rightarrow> int \<Rightarrow> string \<Rightarrow> cache_val \<times> RBACHandler" where
  "get_user_permissions rb now role =
     (if ttl_contains (permission_cache rb) now role
      then (case ttl_getitem (permission_cache rb) now role of
              (Some v, c') \<Rightarrow> (v, rb\<lparr>permission_cache := c'\<rparr>)
            | (None, c') \<Rightarrow> (CPerms [], rb\<lparr>permission_cache := c'\<rparr>))
      else case map_of role_hierarchy role of
             None \<Rightarrow> (CPerms [], rb)
           | Some inherited_roles \<Rightarrow>
               (let permission_list = combined_permissions inherited_roles
                in (CPerms permission_list,
                    rb\<lparr>permission_cache :=
                         ttl_setitem (permission_cache rb) now role (CPerms permission_list)\<rparr>)))"

section \<open>security/encryption.py\<close>

definition ENCRYPTION_KEY_LENGTH :: nat where "ENCRYPTION_KEY_LENGTH = 32"
definition GCM_NONCE_LENGTH :: nat where "GCM_NONCE_LENGTH = 12"
definition GCM_TAG_LENGTH :: nat where "GCM_TAG_LENGTH = 16"

text \<open>
  A Python \<open>str\<close> is a list of code points; the argument of \<open>encrypt_data\<close> is a
  \<open>str\<close> or \<open>bytes\<close>.
\<close>

type_synonym pystr = "int list"

datatype pydata = Str pystr | Bytes bytes

text \<open>\<open>s.encode('utf-8')\<close>: lone surrogates cannot be encoded.\<close>

definition utf8_encode_char :: "int \<Rightarrow> pyexc + bytes" where
  "utf8_encode_char cp =
     (if cp < 0 then Inl UnicodeEncodeError
      else if cp < 0x80 then Inr [of_int cp]
      else if cp < 0x800 then Inr [of_int (0xC0 + cp div 64), of_int (0x80 + cp mod 64)]
      else if 0xD800 \<le> cp \<and> cp \<le> 0xDFFF then Inl UnicodeEncodeError
      else if cp < 0x10000
        then Inr [of_int (0xE0 + cp div 4096), of_int (0x80 + cp div 64 mod 64),
                  of_int (0x80 + cp mod 64)]
      else if cp < 0x110000
        then Inr [of_int (0xF0 + cp div 262144), of_int (0x80 + cp div 4096 mod 64),
                  of_int (0x80 + cp div 64 mod 64), of_int (0x80 + cp mod 64)]
      else Inl UnicodeEncodeError)"

fun utf8_encode :: "pystr \<Rightarrow> pyexc + bytes" where
  "utf8_encode [] = Inr []"
| "utf8_encode (cp # cps) =
     (case utf8_encode_char cp of
        Inl e \<Rightarrow> Inl e
      | Inr bs \<Rightarrow> (case utf8_encode cps of Inl e \<Rightarrow> Inl e | Inr rest \<Rightarrow> Inr (bs @ rest)))"

text \<open>
  \<open>b.decode('utf-8')\<close>, strict: the decoder reads a lead byte, then the continuation
  bytes it announces, each within the range that excludes overlong forms, surrogates
  and code points above U+10FFFF. \<open>Need n acc lo hi\<close>: \<open>n\<close> more bytes to come, the next
  one within \<open>lo..hi\<close>.
\<close>

datatype utf8_state = Start | Need nat int "8 word" "8 word"

text \<open>What a lead byte above 0x7F announces; \<open>None\<close> for a byte that cannot lead.\<close>

definition utf8_lead :: "8 word \<Rightarrow> utf8_state option" where
  "utf8_lead b =
     (if 0xC2 \<le> b \<and> b \<le> 0xDF then Some (Need 1 (uint (b AND 0x1F)) 0x80 0xBF)
      else if b = 0xE0 then Some (Need 2 (uint (b AND 0x0F)) 0xA0 0xBF)
      else if b = 0xED then Some (Need 2 (uint (b AND 0x0F)) 0x80 0x9F)
      else if 0xE1 \<le> b \<and> b \<le> 0xEF then Some (Need 2 (uint (b AND 0x0F)) 0x80 0xBF)
      else if b = 0xF0 then Some (Need 3 (uint (b AND 0x07)) 0x90 0xBF)
      else if 0xF1 \<le> b \<and> b \<le> 0xF3 then Some (Need 3 (uint (b AND 0x07)) 0x80 0xBF)
      else if b = 0xF4 then Some (Need 3 (uint (b AND 0x07)) 0x80 0x8F)
      else None)"

fun utf8_decode_from :: "utf8_state \<Rightarrow> bytes \<Rightarrow> pyexc + pystr" where
  "utf8_decode_from Start [] = Inr []"
| "utf8_decode_from (Need n acc lo hi) [] = Inl UnicodeDecodeError"
| "utf8_decode_from Start (b # bs) =
     (if b < 0x80
      then (case utf8_decode_from Start bs of
              Inl e \<Rightarrow> Inl e | Inr cps \<Rightarrow> Inr (uint b # cps))
      else case utf8_lead b of
             None \<Rightarrow> Inl UnicodeDecodeError
           | Some st \<Rightarrow> utf8_decode_from st bs)"
| "utf8_decode_from (Need n acc lo hi) (b # bs) =
     (if lo \<le> b \<and> b \<le> hi
      then (if n \<le> 1
            then (case utf8_decode_from Start bs of
                    Inl e \<Rightarrow> Inl e
                  | Inr cps \<Rightarrow> Inr ((acc * 64 + uint (b AND 0x3F)) # cps))
            else utf8_decode_from (Need (n - 1) (acc * 64 + uint (b AND 0x3F)) 0x80 0xBF) bs)
      else Inl UnicodeDecodeError)"

definition utf8_decode :: "bytes \<Rightarrow> pyexc + pystr" where
  "utf8_decode bs = utf8_decode_from Start bs"

text \<open>
  The library calls of the module: AES-GCM through \<open>cryptography\<close>'s \<open>Cipher\<close>
  (\<open>gcm_encrypt key nonce data\<close> gives ciphertext and tag, \<open>gcm_decrypt key nonce tag
  ciphertext\<close> gives the plaintext or raises, \<open>InvalidTag\<close> when the tag does not verify)
  and the \<open>base64\<close> codecs, which take and give text.
\<close>

record crypto =
  gcm_encrypt :: "bytes \<Rightarrow> bytes \<Rightarrow> bytes \<Rightarrow> pyexc + bytes \<times> bytes"
  gcm_decrypt :: "bytes \<Rightarrow> bytes \<Rightarrow> bytes \<Rightarrow> bytes \<Rightarrow> pyexc + bytes"
  b64encode :: "bytes \<Rightarrow> string"
  b64decode :: "string \<Rightarrow> pyexc + bytes"
  urlsafe_b64decode :: "string \<Rightarrow> pyexc + bytes"

text \<open>\<open>generate_encryption_key\<close>; \<open>urandom\<close> is what \<open>os.urandom(32)\<close> returns in this run.\<close>

definition generate_encryption_key :: "bytes \<Rightarrow> pyexc + bytes" where
  "generate_encryption_key urandom =
     (if length urandom \<noteq> ENCRYPTION_KEY_LENGTH
      then Inl (ValidationException ''Generated key length invalid'' ''crypto_001'' None)
      else Inr urandom)"

text \<open>\<open>key or base64.urlsafe_b64decode(SECRET_KEY)\<close>: an absent or empty key is falsy.\<close>

definition key_or_default :: "crypto \<Rightarrow> string \<Rightarrow> bytes option \<Rightarrow> pyexc + bytes" where
  "key_or_default L SECRET_KEY key =
     (case key of
        None \<Rightarrow> urlsafe_b64decode L SECRET_KEY
      | Some k \<Rightarrow> if k \<noteq> [] then Inr k else urlsafe_b64decode L SECRET_KEY)"

text \<open>
  The \<open>try\<close> block of \<open>encrypt_data\<close>, which first turns a \<open>str\<close> argument into
  bytes. The second component tells whether the local \<open>encryption_key\<close> was bound when
  the block ended. \<open>nonce\<close> is what \<open>os.urandom(GCM_NONCE_LENGTH)\<close> returns in this run.
\<close>

definition data_bytes :: "pydata \<Rightarrow> pyexc + bytes" where
  "data_bytes data = (case data of Str s \<Rightarrow> utf8_encode s | Bytes b \<Rightarrow> Inr b)"

definition encrypt_try ::
  "crypto \<Rightarrow> string \<Rightarrow> bytes \<Rightarrow> pydata \<Rightarrow> bytes option \<Rightarrow> (pyexc + string) \<times> bool" where
  "encrypt_try L SECRET_KEY nonce data key =
     (case data_bytes data of
        Inl e \<Rightarrow> (Inl e, False)
      | Inr d \<Rightarrow>
          (case key_or_default L SECRET_KEY key of
             Inl e \<Rightarrow> (Inl e, False)
           | Inr encryption_key \<Rightarrow>
               (if length encryption_key \<noteq> ENCRYPTION_KEY_LENGTH
                then Inl (ValidationException ''Invalid encryption key length''
                            ''crypto_002'' None)
                else case gcm_encrypt L encryption_key nonce d of
                       Inl e \<Rightarrow> Inl e
                     | Inr (ciphertext, tag) \<Rightarrow> Inr (b64encode L (nonce @ ciphertext @ tag)),
                True)))"

text \<open>
  \<open>encrypt_data\<close>: \<open>except Exception\<close> rewraps whatever the block raised, then \<open>finally\<close>
  runs \<open>del encryption_key\<close>, which itself raises when the name was never bound.
\<close>

definition encrypt_data ::
  "crypto \<Rightarrow> string \<Rightarrow> bytes \<Rightarrow> pydata \<Rightarrow> bytes option \<Rightarrow> pyexc + string" where
  "encrypt_data L SECRET_KEY nonce data key =
     (case encrypt_try L SECRET_KEY nonce data key of
        (r, bound) \<Rightarrow>
          if \<not> bound then Inl UnboundLocalError
          else (case r of
                  Inr sealed \<Rightarrow> Inr sealed
                | Inl e \<Rightarrow>
                    Inl (ValidationException ''Encryption failed'' ''crypto_003'' (Some e))))"

text \<open>
  The slices of \<open>decrypt_data\<close>: \<open>b[:12]\<close>, \<open>b[-16:]\<close> and \<open>b[12:-16]\<close>, which on a short
  input overlap or are empty as Python's slices are.
\<close>

definition payload_nonce :: "bytes \<Rightarrow> bytes" where
  "payload_nonce b = take GCM_NONCE_LENGTH b"

definition payload_tag :: "bytes \<Rightarrow> bytes" where
  "payload_tag b = drop (length b - GCM_TAG_LENGTH) b"

definition payload_ciphertext :: "bytes \<Rightarrow> bytes" where
  "payload_ciphertext b = drop GCM_NONCE_LENGTH (take (length b - GCM_TAG_LENGTH) b)"

definition decrypt_try ::
  "crypto \<Rightarrow> string \<Rightarrow> string \<Rightarrow> bytes option \<Rightarrow> (pyexc + pystr) \<times> bool" where
  "decrypt_try L SECRET_KEY encrypted_data key =
     (case b64decode L encrypted_data of
        Inl e \<Rightarrow> (Inl e, False)
      | Inr encrypted_bytes \<Rightarrow>
          (case key_or_default L SECRET_KEY key of
             Inl e \<Rightarrow> (Inl e, False)
           | Inr decryption_key \<Rightarrow>
               (if length decryption_key \<noteq> ENCRYPTION_KEY_LENGTH
                then Inl (ValidationException ''Invalid decryption key length''
                            ''crypto_004'' None)
                else case gcm_decrypt L decryption_key (payload_nonce encrypted_bytes)
                            (payload_tag encrypted_bytes) (payload_ciphertext encrypted_bytes) of
                       Inl e \<Rightarrow> Inl e
                     | Inr decrypted_data \<Rightarrow> utf8_decode decrypted_data,
                True)))"

definition decrypt_data ::
  "crypto \<Rightarrow> string \<Rightarrow> string \<Rightarrow> bytes option \<Rightarrow> pyexc + pystr" where
  "decrypt_data L SECRET_KEY encrypted_data key =
     (case decrypt_try L SECRET_KEY encrypted_data key of
        (r, bound) \<Rightarrow>
          if \<not> bound then Inl UnboundLocalError
          else (case r of
                  Inr text \<Rightarrow> Inr text
                | Inl InvalidTag \<Rightarrow>
                    Inl (ValidationException ''Authentication failed - data may be corrupted''
                           ''crypto_005'' None)
                | Inl e \<Rightarrow>
                    Inl (ValidationException ''Decryption failed'' ''crypto_006'' (Some e))))"

record DataEncryption =
  encryption_key :: bytes

text \<open>\<open>DataEncryption.__init__\<close>; \<open>urandom\<close> feeds \<open>generate_encryption_key\<close>.\<close>

definition DataEncryption_init :: "bytes option \<Rightarrow> bytes \<Rightarrow> pyexc + DataEncryption" where
  "DataEncryption_init key urandom =
     (case (case key of
              None \<Rightarrow> generate_encryption_key urandom
            | Some k \<Rightarrow> if k \<noteq> [] then Inr k else generate_encryption_key urandom) of
        Inl e \<Rightarrow> Inl e
      | Inr k \<Rightarrow>
          if length k \<noteq> ENCRYPTION_KEY_LENGTH
          then Inl (ValidationException ''Invalid encryption key length'' ''crypto_007'' None)
          else Inr \<lparr>encryption_key = k\<rparr>)"

definition DataEncryption_encrypt ::
  "crypto \<Rightarrow> string \<Rightarrow> DataEncryption \<Rightarrow> bytes \<Rightarrow> pydata \<Rightarrow> pyexc + string" where
  "DataEncryption_encrypt L SECRET_KEY de nonce data =
     encrypt_data L SECRET_KEY nonce data (Some (encryption_key de))"

definition DataEncryption_decrypt ::
  "crypto \<Rightarrow> string \<Rightarrow> DataEncryption \<Rightarrow> string \<Rightarrow> pyexc + pystr" where
  "DataEncryption_decrypt L SECRET_KEY de encrypted_data =
     decrypt_data L SECRET_KEY encrypted_data (Some (encryption_key de))"

text \<open>
  \<open>DataEncryption.rotate_key\<close>: the old key is overwritten with zeros and then with the
  new key; no earlier key is kept.
\<close>

definition DataEncryption_rotate_key ::
  "DataEncryption \<Rightarrow> bytes \<Rightarrow> (pyexc + bytes) \<times> DataEncryption" where
  "DataEncryption_rotate_key de urandom =
     (case generate_encryption_key urandom of
        Inl e \<Rightarrow> (Inl (ValidationException ''Key rotation failed'' ''crypto_008'' (Some e)), de)
      | Inr new_key \<Rightarrow>
          (let zeroed = de\<lparr>encryption_key := replicate ENCRYPTION_KEY_LENGTH 0\<rparr>
           in (Inr new_key, zeroed\<lparr>encryption_key := new_key\<rparr>)))"

section \<open>config/security.py\<close>

definition KEY_ROTATION_DAYS :: int where "KEY_ROTATION_DAYS = 30"

record SecurityConfig =
  encryption_keys :: "(string \<times> bytes) list"
  active_key_id :: string
  last_rotation :: int

text \<open>
  \<open>SecurityConfig.__init__\<close>, the key store only: \<open>key_id\<close> is what \<open>secrets.token_hex(8)\<close>
  returns, \<open>key\<close> what \<open>secrets.token_bytes(32)\<close> returns. No attribute
  \<open>_previous_key_id\<close> is set, here or anywhere else.
\<close>

definition SecurityConfig_init :: "int \<Rightarrow> string \<Rightarrow> bytes \<Rightarrow> SecurityConfig" where
  "SecurityConfig_init now key_id key =
     \<lparr>encryption_keys = [(key_id, key)], active_key_id = key_id, last_rotation = now\<rparr>"

text \<open>
  The retention filter of \<open>rotate_encryption_keys\<close>,
  \<open>{k: v for k, v in keys.items() if k == active or k == self._previous_key_id}\<close>:
  the second test is reached for the first key that differs from the active one, and
  reading the attribute raises.
\<close>

fun retention_filter :: "string \<Rightarrow> (string \<times> bytes) list \<Rightarrow> pyexc + (string \<times> bytes) list" where
  "retention_filter active [] = Inr []"
| "retention_filter active ((k, v) # kvs) =
     (if k = active
      then (case retention_filter active kvs of
              Inl e \<Rightarrow> Inl e | Inr kept \<Rightarrow> Inr ((k, v) # kept))
      else Inl AttributeError)"

text \<open>
  \<open>rotate_encryption_keys\<close> under \<open>@periodic_task(days=KEY_ROTATION_DAYS)\<close>: the wrapper
  runs the body only when 30 whole days have passed since the last rotation, and
  otherwise returns \<open>None\<close>. The body stores the new key, makes it active and stamps
  the rotation before it filters.
\<close>

definition rotate_encryption_keys ::
  "SecurityConfig \<Rightarrow> int \<Rightarrow> string \<Rightarrow> bytes \<Rightarrow> (pyexc + pydict option) \<times> SecurityConfig" where
  "rotate_encryption_keys cfg now new_key_id new_key =
     (if (now - last_rotation cfg) div 86400 \<ge> KEY_ROTATION_DAYS
      then (let cfg1 = cfg\<lparr>encryption_keys := AList.update new_key_id new_key (encryption_keys cfg),
                             active_key_id := new_key_id,
                             last_rotation := now\<rparr>
            in case retention_filter (active_key_id cfg1) (encryption_keys cfg1) of
                 Inl e \<Rightarrow> (Inl e, cfg1)
               | Inr kept \<Rightarrow>
                   (Inr (Some [(''active_key_id'', PStr new_key_id),
                               (''rotation_time'', PInt now)]),
                    cfg1\<lparr>encryption_keys := kept\<rparr>))
      else (Inr None, cfg))"

text \<open>
  \<open>SecurityConfig.encrypt_data\<close> and \<open>decrypt_data\<close> through \<open>AESGCM\<close>, whose output is
  ciphertext followed by the 16-byte tag.
\<close>

definition SecurityConfig_encrypt_data ::
  "crypto \<Rightarrow> SecurityConfig \<Rightarrow> bytes \<Rightarrow> bytes \<Rightarrow> string option \<Rightarrow> pyexc + bytes \<times> bytes" where
  "SecurityConfig_encrypt_data L cfg nonce data key_id =
     (let kid = (case key_id of None \<Rightarrow> active_key_id cfg
                 | Some i \<Rightarrow> if i \<noteq> [] then i else active_key_id cfg)
      in case map_of (encryption_keys cfg) kid of
           None \<Rightarrow> Inl ValueError
         | Some key \<Rightarrow>
             (case gcm_encrypt L key nonce data of
                Inl e \<Rightarrow> Inl e
              | Inr (ciphertext, tag) \<Rightarrow> Inr (ciphertext @ tag, nonce)))"

definition SecurityConfig_decrypt_data ::
  "crypto \<Rightarrow> SecurityConfig \<Rightarrow> bytes \<Rightarrow> bytes \<Rightarrow> string \<Rightarrow> pyexc + bytes" where
  "SecurityConfig_decrypt_data L cfg encrypted_data nonce key_id =
     (case map_of (encryption_keys cfg) key_id of
        None \<Rightarrow> Inl ValueError
      | Some key \<Rightarrow>
          if length encrypted_data < GCM_TAG_LENGTH then Inl InvalidTag
          else gcm_decrypt L key nonce
                 (drop (length encrypted_data - GCM_TAG_LENGTH) encrypted_data)
                 (take (length encrypted_data - GCM_TAG_LENGTH) encrypted_data))"


section \<open>security/authentication.py\<close>

definition TOKEN_CACHE_TTL :: int where "TOKEN_CACHE_TTL = 300"
definition MAX_AUTH_ATTEMPTS :: int where "MAX_AUTH_ATTEMPTS = 5"

text \<open>
  The cache collaborator. A stored value is an integer counter, a JSON document (kept
  as the dict it serialises) or other text. The manager writes \<open>await\<close> before each
  call of the client; an operation here is the call together with that \<open>await\<close>: it
  gives a value or raises, and leaves a new store.
\<close>

datatype redis_val = RInt int | RJson pydict | RStr string

record 'r cache_client =
  cache_get :: "'r \<Rightarrow> int \<Rightarrow> string \<Rightarrow> (pyexc + redis_val option) \<times> 'r"
  cache_incr :: "'r \<Rightarrow> int \<Rightarrow> string \<Rightarrow> (pyexc + int) \<times> 'r"
  cache_expire :: "'r \<Rightarrow> int \<Rightarrow> string \<Rightarrow> int \<Rightarrow> (pyexc + bool) \<times> 'r"
  cache_delete :: "'r \<Rightarrow> int \<Rightarrow> string \<Rightarrow> (pyexc + int) \<times> 'r"
  cache_setex :: "'r \<Rightarrow> int \<Rightarrow> string \<Rightarrow> int \<Rightarrow> redis_val \<Rightarrow> (pyexc + bool) \<times> 'r"

text \<open>
  The manager: its token handler, the cache store, and a count of the calls made to
  the credential store, kept so that a theorem can say that a call did not reach it.
\<close>

record 'r AuthenticationManager =
  auth_jwt_handler :: JWTHandler
  cache :: 'r
  credential_lookups :: nat

text \<open>
  \<open>_get_failed_attempts\<close>: \<open>int(attempts) if attempts else 0\<close>, and 0 on any exception
  (text that is no number makes \<open>int\<close> raise).
\<close>

definition get_failed_attempts :: "'r cache_client \<Rightarrow> 'r \<Rightarrow> int \<Rightarrow> string \<Rightarrow> int \<times> 'r" where
  "get_failed_attempts cl st now email =
     (case cache_get cl st now (''failed_attempts:'' @ email) of
        (Inr (Some (RInt n)), st') \<Rightarrow> (n, st')
      | (_, st') \<Rightarrow> (0, st'))"

definition increment_failed_attempts :: "'r cache_client \<Rightarrow> 'r \<Rightarrow> int \<Rightarrow> string \<Rightarrow> 'r" where
  "increment_failed_attempts cl st now email =
     (let key = ''failed_attempts:'' @ email in
      case cache_incr cl st now key of
        (Inl e, st') \<Rightarrow> st'
      | (Inr n, st') \<Rightarrow> snd (cache_expire cl st' now key 3600))"

definition clear_failed_attempts :: "'r cache_client \<Rightarrow> 'r \<Rightarrow> int \<Rightarrow> string \<Rightarrow> 'r" where
  "clear_failed_attempts cl st now email =
     snd (cache_delete cl st now (''failed_attempts:'' @ email))"

definition cache_tokens ::
  "'r cache_client \<Rightarrow> 'r \<Rightarrow> int \<Rightarrow> string \<Rightarrow> string \<Rightarrow> string \<Rightarrow> 'r" where
  "cache_tokens cl st now user_id access_token refresh_token =
     snd (cache_setex cl st now (''tokens:'' @ user_id) TOKEN_CACHE_TTL
            (RJson [(''access_token'', PStr access_token),
                    (''refresh_token'', PStr refresh_token),
                    (''created_at'', PInt now)]))"

text \<open>
  \<open>_verify_credentials\<close> as the source has it: a body of \<open>pass\<close>, which returns \<open>None\<close>.
  \<open>authenticate_user\<close> below takes the lookup as an argument, so that it can also be
  read with a credential store in place of the stub.
\<close>

definition verify_credentials_stub :: "string \<Rightarrow> string \<Rightarrow> pydict option" where
  "verify_credentials_stub email password = None"

text \<open>
  \<open>self._jwt_handler.create_access_token\<close>: \<open>JWTHandler\<close> defines \<open>create_token\<close>,
  \<open>verify_token\<close>, \<open>blacklist_token\<close>, \<open>rotate_key\<close>, \<open>has_role\<close> and \<open>has_permission\<close>;
  reading any other attribute raises before an argument is evaluated.
\<close>

definition create_access_token :: "pyexc + string" where
  "create_access_token = Inl AttributeError"

text \<open>\<open>str(x)\<close> for the values a user id can be.\<close>

function string_of_nat :: "nat \<Rightarrow> string" where
  "string_of_nat n =
     (if n < 10 then [char_of (48 + n)]
      else string_of_nat (n div 10) @ [char_of (48 + n mod 10)])"
  by pat_completeness auto
termination
  by (relation "measure id") auto

fun py_str :: "pyval \<Rightarrow> string" where
  "py_str (PStr s) = s"
| "py_str (PInt i) = (if i < 0 then CHR ''-'' # string_of_nat (nat (- i)) else string_of_nat (nat i))"
| "py_str (PBool b) = (if b then ''True'' else ''False'')"
| "py_str PNone = ''None''"
| "py_str (PList xs) = ''[...]''"
| "py_str (PDict d) = ''{...}''"

text \<open>
  The token step of \<open>authenticate_user\<close>, reached once the credentials are accepted:
  access token, refresh token (7 days), \<open>_cache_tokens\<close>, \<open>_clear_failed_attempts\<close>,
  and the result dict.
\<close>

definition issue_tokens ::
  "jose \<Rightarrow> 'r cache_client \<Rightarrow> 'r AuthenticationManager \<Rightarrow> (pyval list, string) ttl_cache
    \<Rightarrow> int \<Rightarrow> string \<Rightarrow> string \<Rightarrow> pydict
    \<Rightarrow> (pyexc + pydict) \<times> 'r AuthenticationManager \<times> (pyval list, string) ttl_cache" where
  "issue_tokens L cl am ctc now uuid email user =
     (case create_access_token of
        Inl e \<Rightarrow> (Inl e, am, ctc)
      | Inr access_token \<Rightarrow>
          (case map_of user ''id'' of
             None \<Rightarrow> (Inl KeyError, am, ctc)
           | Some uid \<Rightarrow>
               (case create_token L (auth_jwt_handler am) ctc now uuid
                       [(''sub'', PStr (py_str uid))]
                       (dict_get_default user ''roles'' (PList [PStr ''user'']))
                       (PDict []) (Some (7 * 86400)) of
                  (Inl e, ctc') \<Rightarrow> (Inl e, am, ctc')
                | (Inr refresh_token, ctc') \<Rightarrow>
                    (let st1 = cache_tokens cl (cache am) now (py_str uid)
                                 access_token refresh_token;
                         st2 = clear_failed_attempts cl st1 now email
                     in (Inr [(''access_token'', PStr access_token),
                              (''refresh_token'', PStr refresh_token),
                              (''token_type'', PStr ''bearer''),
                              (''expires_in'', PInt 1800)],
                         am\<lparr>cache := st2\<rparr>, ctc')))))"

text \<open>
  The \<open>try\<close> block of \<open>authenticate_user\<close>. \<open>try_acquire\<close> is the rate limiter's answer
  for this call, \<open>verify_credentials\<close> the credential lookup.
\<close>

definition authenticate_user_try ::
  "jose \<Rightarrow> 'r cache_client \<Rightarrow> (string \<Rightarrow> string \<Rightarrow> pydict option) \<Rightarrow> 'r AuthenticationManager
    \<Rightarrow> (pyval list, string) ttl_cache \<Rightarrow> bool \<Rightarrow> int \<Rightarrow> string \<Rightarrow> string \<Rightarrow> string
    \<Rightarrow> (pyexc + pydict) \<times> 'r AuthenticationManager \<times> (pyval list, string) ttl_cache" where
  "authenticate_user_try L cl verify_credentials am ctc try_acquire now uuid email password =
     (if \<not> try_acquire
      then (Inl (AuthenticationException ''Authentication rate limit exceeded''
                   RATE_LIMITED None), am, ctc)
      else case get_failed_attempts cl (cache am) now email of
        (failed_attempts, st1) \<Rightarrow>
          if failed_attempts \<ge> MAX_AUTH_ATTEMPTS
          then (Inl (AuthenticationException
                       ''Account temporarily locked due to multiple failed attempts''
                       AUTH_FAILED None), am\<lparr>cache := st1\<rparr>, ctc)
          else
            (let am1 = am\<lparr>cache := st1, credential_lookups := Suc (credential_lookups am)\<rparr> in
             case verify_credentials email password of
               None \<Rightarrow>
                 (Inl (AuthenticationException ''Invalid credentials'' AUTH_FAILED None),
                  am1\<lparr>cache := increment_failed_attempts cl st1 now email\<rparr>, ctc)
             | Some user \<Rightarrow>
                 if user = []
                 then (Inl (AuthenticationException ''Invalid credentials'' AUTH_FAILED None),
                       am1\<lparr>cache := increment_failed_attempts cl st1 now email\<rparr>, ctc)
                 else issue_tokens L cl am1 ctc now uuid email user))"

text \<open>
  \<open>authenticate_user\<close>: an \<open>AuthenticationException\<close> passes through, any other
  exception is replaced by the general failure.
\<close>

definition authenticate_user ::
  "jose \<Rightarrow> 'r cache_client \<Rightarrow> (string \<Rightarrow> string \<Rightarrow> pydict option) \<Rightarrow> 'r AuthenticationManager
    \<Rightarrow> (pyval list, string) ttl_cache \<Rightarrow> bool \<Rightarrow> int \<Rightarrow> string \<Rightarrow> string \<Rightarrow> string
    \<Rightarrow> (pyexc + pydict) \<times> 'r AuthenticationManager \<times> (pyval list, string) ttl_cache" where
  "authenticate_user L cl verify_credentials am ctc try_acquire now uuid email password =
     (case authenticate_user_try L cl verify_credentials am ctc try_acquire now uuid
             email password of
        (Inl (AuthenticationException m c d), am', ctc') \<Rightarrow>
          (Inl (AuthenticationException m c d), am', ctc')
      | (Inl e, am', ctc') \<Rightarrow>
          (Inl (AuthenticationException ''Authentication failed'' AUTH_FAILED None), am', ctc')
      | (Inr tokens, am', ctc') \<Rightarrow> (Inr tokens, am', ctc'))"

section \<open>Invariants and scenario data\<close>

text \<open>
  What the shared cache may hold under a role name of the hierarchy: only the list
  \<open>get_user_permissions\<close> computes for that role.
\<close>

definition perm_cache_ok :: "RBACHandler \<Rightarrow> bool" where
  "perm_cache_ok rb =
     (\<forall>l \<in> set (links (permission_cache rb)). \<forall>rs.
        map_of role_hierarchy (fst l) = Some rs \<longrightarrow>
        snd (snd l) = CPerms (combined_permissions rs))"

fun perms_of :: "cache_val \<Rightarrow> string set" where
  "perms_of (CPerms ps) = set ps"
| "perms_of (CBool b) = {}"

text \<open>Flipping bit \<open>i\<close> of a byte string, bits counted from the low bit of the first byte.\<close>

definition flip_bit :: "nat \<Rightarrow> bytes \<Rightarrow> bytes" where
  "flip_bit i bs = bs[i div 8 := (bs ! (i div 8)) XOR push_bit (i mod 8) 1]"

subsection \<open>What the theorems ask of the libraries\<close>

text \<open>
  AES-GCM under a 32-byte key and a 12-byte nonce encrypts any data, gives a 16-byte
  tag, and decrypts its own output.
\<close>

definition gcm_correct :: "crypto \<Rightarrow> bool" where
  "gcm_correct L =
     (\<forall>k n p. length k = 32 \<longrightarrow> length n = 12 \<longrightarrow>
        (\<exists>c t. gcm_encrypt L k n p = Inr (c, t) \<and> length t = 16 \<and>
               gcm_decrypt L k n t c = Inr p))"

text \<open>
  AES-GCM rejects its own output once a bit of the ciphertext or of the tag is flipped.
\<close>

definition gcm_detects_bit_flips :: "crypto \<Rightarrow> bool" where
  "gcm_detects_bit_flips L =
     (\<forall>k n p c t i. gcm_encrypt L k n p = Inr (c, t) \<longrightarrow> i < 8 * (length c + length t) \<longrightarrow>
        gcm_decrypt L k n (drop (length c) (flip_bit i (c @ t)))
          (take (length c) (flip_bit i (c @ t))) = Inl InvalidTag)"

definition b64_roundtrip :: "crypto \<Rightarrow> bool" where
  "b64_roundtrip L = (\<forall>bs. b64decode L (b64encode L bs) = Inr bs)"

text \<open>
  python-jose raises nothing but \<open>JWTError\<close> and its subclasses from \<open>jwt.decode\<close>; a
  token that decodes at one time is rejected as expired at any time after its integer
  \<open>exp\<close>; a token that decodes has claims that can be read without verification; a
  token decodes, if at all, to the claims it was encoded from, and not under another key.
\<close>

definition jose_raises_JWTError :: "jose \<Rightarrow> bool" where
  "jose_raises_JWTError L =
     (\<forall>token key algs now e. jwt_decode L token key algs now = Inl e \<longrightarrow> is_JWTError e)"

definition jose_checks_exp :: "jose \<Rightarrow> bool" where
  "jose_checks_exp L =
     (\<forall>token key algs t1 t2 payload e.
        jwt_decode L token key algs t1 = Inr payload \<longrightarrow>
        map_of payload ''exp'' = Some (PInt e) \<longrightarrow> e < t2 \<longrightarrow>
        jwt_decode L token key algs t2 = Inl (JWTError ExpiredSignatureError))"

definition jose_reads_claims :: "jose \<Rightarrow> bool" where
  "jose_reads_claims L =
     (\<forall>token key algs now payload.
        jwt_decode L token key algs now = Inr payload \<longrightarrow>
        jwt_get_unverified_claims L token = Inr payload)"

definition jose_decodes_encoded :: "jose \<Rightarrow> bool" where
  "jose_decodes_encoded L =
     (\<forall>claims key alg token key' algs now payload.
        jwt_encode L claims key alg = Inr token \<longrightarrow>
        jwt_decode L token key' algs now = Inr payload \<longrightarrow>
        key' = key \<and> payload = claims)"

subsection \<open>Library instances for the scenarios\<close>

text \<open>
  The theorems below hold for any library functions that behave, at the call in
  question, as the theorem's hypotheses say. To evaluate scenarios, each library gets a
  small executable instance here.

  A python-jose instance that knows the finitely many tokens of a scenario: each entry
  is a token string, the key it was signed with and its claims. Decoding checks the
  key and, like python-jose, rejects an integer \<open>exp\<close> that lies before the clock.
\<close>

definition jose_of_table :: "(string \<times> bytes \<times> pydict) list \<Rightarrow> jose" where
  "jose_of_table tbl =
     \<lparr>jwt_encode = (\<lambda>claims key alg.
        case find (\<lambda>(t, k, c). k = key \<and> c = claims) tbl of
          None \<Rightarrow> Inl (JWTError JWTErrorBase)
        | Some (t, k, c) \<Rightarrow> Inr t),
      jwt_decode = (\<lambda>token key algs now.
        case map_of tbl token of
          None \<Rightarrow> Inl (JWTError JWTErrorBase)
        | Some (k, c) \<Rightarrow>
            if k \<noteq> key then Inl (JWTError JWTErrorBase)
            else (case map_of c ''exp'' of
                    Some (PInt e) \<Rightarrow> if e < now then Inl (JWTError ExpiredSignatureError)
                                     else Inr c
                  | _ \<Rightarrow> Inr c)),
      jwt_get_unverified_claims = (\<lambda>token.
        case map_of tbl token of
          None \<Rightarrow> Inl (JWTError JWTErrorBase)
        | Some (k, c) \<Rightarrow> Inr c)\<rparr>"

text \<open>
  The scenario: two signing keys, the claims \<open>create_token\<close>'s body writes for a user
  without and for a user with a \<open>role\<close> entry in the base claims, and for a call that
  passes \<open>None\<close> as roles and permissions (all issued at time 0 for 100 seconds), and
  the tokens that carry them.
\<close>

definition scenario_key :: bytes where
  "scenario_key = replicate 32 0x11"

definition scenario_key2 :: bytes where
  "scenario_key2 = replicate 32 0x22"

definition claims_user :: pydict where
  "claims_user =
     token_data 0 ''jti-1'' [(''sub'', PStr ''u1'')]
       (PList [PStr ''standard_user'']) (PDict []) (Some 100)"

definition claims_admin :: pydict where
  "claims_admin =
     token_data 0 ''jti-2'' [(''sub'', PStr ''u2''), (''role'', PStr ''org_admin'')]
       (PList [PStr ''org_admin'']) (PDict []) (Some 100)"

definition claims_null_roles :: pydict where
  "claims_null_roles = token_data 0 ''jti-3'' [(''sub'', PStr ''u3'')] PNone PNone (Some 100)"

definition scenario_jose :: jose where
  "scenario_jose =
     jose_of_table
       [(''token-u1'', scenario_key, claims_user),
        (''token-u2'', scenario_key, claims_admin),
        (''token-u1-rotated'', scenario_key2, claims_user),
        (''token-u3'', scenario_key, claims_null_roles)]"

text \<open>Standard base64 with padding; the decoder accepts canonical text only.\<close>

definition b64_alphabet :: string where
  "b64_alphabet = ''ABCDEFGHIJKLMNOPQRSTUVWXYZabcdefghijklmnopqrstuvwxyz0123456789+/''"

definition b64_char :: "nat \<Rightarrow> char" where
  "b64_char n = b64_alphabet ! n"

fun index_of :: "'a \<Rightarrow> 'a list \<Rightarrow> nat option" where
  "index_of x [] = None"
| "index_of x (y # ys) = (if x = y then Some 0 else map_option Suc (index_of x ys))"

fun std_b64encode :: "bytes \<Rightarrow> string" where
  "std_b64encode [] = []"
| "std_b64encode [a] =
     [b64_char (unat a div 4), b64_char (unat a mod 4 * 16), CHR ''='', CHR ''='']"
| "std_b64encode [a, b] =
     [b64_char (unat a div 4), b64_char (unat a mod 4 * 16 + unat b div 16),
      b64_char (unat b mod 16 * 4), CHR ''='']"
| "std_b64encode (a # b # c # r) =
     [b64_char (unat a div 4), b64_char (unat a mod 4 * 16 + unat b div 16),
      b64_char (unat b mod 16 * 4 + unat c div 64), b64_char (unat c mod 64)]
     @ std_b64encode r"

fun std_b64decode :: "string \<Rightarrow> pyexc + bytes" where
  "std_b64decode [] = Inr []"
| "std_b64decode (c1 # c2 # c3 # c4 # r) =
     (case (index_of c1 b64_alphabet, index_of c2 b64_alphabet) of
        (Some i1, Some i2) \<Rightarrow>
          (if c3 = CHR ''='' \<and> c4 = CHR ''='' \<and> r = [] \<and> i2 mod 16 = 0
           then Inr [of_nat (i1 * 4 + i2 div 16)]
           else case index_of c3 b64_alphabet of
             None \<Rightarrow> Inl BinasciiError
           | Some i3 \<Rightarrow>
               (if c4 = CHR ''='' \<and> r = [] \<and> i3 mod 4 = 0
                then Inr [of_nat (i1 * 4 + i2 div 16), of_nat (i2 mod 16 * 16 + i3 div 4)]
                else case index_of c4 b64_alphabet of
                  None \<Rightarrow> Inl BinasciiError
                | Some i4 \<Rightarrow>
                    (case std_b64decode r of
                       Inl e \<Rightarrow> Inl e
                     | Inr rest \<Rightarrow>
                         Inr (of_nat (i1 * 4 + i2 div 16) # of_nat (i2 mod 16 * 16 + i3 div 4)
                              # of_nat (i3 mod 4 * 64 + i4) # rest))))
      | _ \<Rightarrow> Inl BinasciiError)"
| "std_b64decode cs = Inl BinasciiError"

text \<open>
  A stand-in for AES-GCM with the same interface and the same parameter checks: the
  data is masked with a stream made from key and nonce, and the 16-byte tag depends on
  the key and on every ciphertext bit. It decrypts what it encrypted and rejects a
  wrong tag, which is all the scenarios use.
\<close>

definition demo_mask :: "bytes \<Rightarrow> bytes \<Rightarrow> bytes \<Rightarrow> bytes" where
  "demo_mask k n d =
     map (\<lambda>(i, b). b XOR (k ! (i mod length k)) XOR (n ! (i mod length n)))
       (zip [0..<length d] d)"

definition demo_tag :: "bytes \<Rightarrow> bytes \<Rightarrow> bytes \<Rightarrow> bytes" where
  "demo_tag k n c =
     map (\<lambda>j. (k ! j) XOR (n ! (j mod length n)) XOR fold (XOR) c 0 XOR of_nat (length c))
       [0..<16]"

definition gcm_params_ok :: "bytes \<Rightarrow> bytes \<Rightarrow> bool" where
  "gcm_params_ok k n = (length k \<in> {16, 24, 32} \<and> 8 \<le> length n \<and> length n \<le> 128)"

definition demo_crypto :: crypto where
  "demo_crypto =
     \<lparr>gcm_encrypt = (\<lambda>k n d.
        if gcm_params_ok k n then Inr (demo_mask k n d, demo_tag k n (demo_mask k n d))
        else Inl ValueError),
      gcm_decrypt = (\<lambda>k n t c.
        if gcm_params_ok k n \<and> length t = 16
        then (if t = demo_tag k n c then Inr (demo_mask k n c) else Inl InvalidTag)
        else Inl ValueError),
      b64encode = std_b64encode,
      b64decode = std_b64decode,
      urlsafe_b64decode = (\<lambda>s. Inl BinasciiError)\<rparr>"

text \<open>
  A cache client whose calls can be awaited and behave as Redis commands do: \<open>GET\<close>,
  \<open>INCR\<close> (a missing key counts from 0 and gets no expiry), \<open>EXPIRE\<close>, \<open>DEL\<close>, \<open>SETEX\<close>.
  The store maps a key to its value and the time at which it lapses, if any.
\<close>

type_synonym redis = "(string \<times> redis_val \<times> int option) list"

definition redis_live :: "redis \<Rightarrow> int \<Rightarrow> string \<Rightarrow> (redis_val \<times> int option) option" where
  "redis_live st now k =
     (case map_of st k of
        None \<Rightarrow> None
      | Some (v, None) \<Rightarrow> Some (v, None)
      | Some (v, Some t) \<Rightarrow> if now < t then Some (v, Some t) else None)"

definition async_redis_client :: "redis cache_client" where
  "async_redis_client =
     \<lparr>cache_get = (\<lambda>st now k. (Inr (map_option fst (redis_live st now k)), st)),
      cache_incr = (\<lambda>st now k.
        case redis_live st now k of
          None \<Rightarrow> (Inr 1, AList.update k (RInt 1, None) st)
        | Some (RInt n, e) \<Rightarrow> (Inr (n + 1), AList.update k (RInt (n + 1), e) st)
        | Some (_, e) \<Rightarrow> (Inl RedisError, st)),
      cache_expire = (\<lambda>st now k secs.
        case redis_live st now k of
          None \<Rightarrow> (Inr False, st)
        | Some (v, e) \<Rightarrow> (Inr True, AList.update k (v, Some (now + secs)) st)),
      cache_delete = (\<lambda>st now k.
        case redis_live st now k of
          None \<Rightarrow> (Inr 0, AList.delete k st)
        | Some (v, e) \<Rightarrow> (Inr 1, AList.delete k st)),
      cache_setex = (\<lambda>st now k secs v. (Inr True, AList.update k (v, Some (now + secs)) st))\<rparr>"

text \<open>
  \<open>await x\<close> where \<open>x\<close> is what a synchronous call has returned: the call has had its
  effect on the store, and its plain result cannot be awaited, so the expression raises
  \<open>TypeError\<close>. An exception of the call itself passes.
\<close>

definition await_plain :: "(pyexc + 'a) \<times> 'r \<Rightarrow> (pyexc + 'a) \<times> 'r" where
  "await_plain r = (case r of (Inl e, st) \<Rightarrow> (Inl e, st) | (Inr v, st) \<Rightarrow> (Inl TypeError, st))"

text \<open>
  The client \<open>AuthenticationManager.__init__\<close> builds, \<open>redis.Redis(...)\<close>: the synchronous
  client. It runs the same commands, and the manager awaits what they return.
\<close>

definition redis_client :: "redis cache_client" where
  "redis_client =
     \<lparr>cache_get = (\<lambda>st now k. await_plain (cache_get async_redis_client st now k)),
      cache_incr = (\<lambda>st now k. await_plain (cache_incr async_redis_client st now k)),
      cache_expire = (\<lambda>st now k secs. await_plain (cache_expire async_redis_client st now k secs)),
      cache_delete = (\<lambda>st now k. await_plain (cache_delete async_redis_client st now k)),
      cache_setex = (\<lambda>st now k secs v.
        await_plain (cache_setex async_redis_client st now k secs v))\<rparr>"

text \<open>
  A credential store with one user, a manager with an empty cache, and \<open>n\<close> logins in a
  row with a wrong password through a given cache client.
\<close>

definition scenario_store :: "string \<Rightarrow> string \<Rightarrow> pydict option" where
  "scenario_store email password =
     (if email = ''a@example.com'' \<and> password = ''correct horse''
      then Some [(''id'', PInt 7), (''email'', PStr ''a@example.com''),
                 (''roles'', PList [PStr ''standard_user''])]
      else None)"

definition scenario_manager :: "redis AuthenticationManager" where
  "scenario_manager =
     \<lparr>auth_jwt_handler = JWTHandler_init scenario_key, cache = [], credential_lookups = 0\<rparr>"

fun failed_logins ::
  "redis cache_client \<Rightarrow> nat \<Rightarrow> redis AuthenticationManager \<Rightarrow> redis AuthenticationManager" where
  "failed_logins cl 0 am = am"
| "failed_logins cl (Suc n) am =
     failed_logins cl n
       (fst (snd (authenticate_user scenario_jose cl scenario_store am
                    (TTLCache 1000 300) True 0 ''jti'' ''a@example.com'' ''wrong'')))"

section \<open>Role inheritance\<close>

lemma role_name_no_colon: "map_of role_hierarchy (token @ '':'' @ perm) = None"
proof -
  have "\<forall>k \<in> fst ` set role_hierarchy. CHR '':'' \<notin> set k"
    by (simp add: role_hierarchy_def)
  moreover have "CHR '':'' \<in> set (token @ '':'' @ perm)" by simp
  ultimately have "token @ '':'' @ perm \<notin> fst ` set role_hierarchy"
    by blast
  then show ?thesis by (simp add: map_of_eq_None_iff)
qed

lemma perm_cache_ok_init: "perm_cache_ok (RBACHandler_init k)"
  by (simp add: perm_cache_ok_def RBACHandler_init_def TTLCache_def)

lemma perm_cache_ok_subset:
  "perm_cache_ok rb \<Longrightarrow> set (links c') \<subseteq> set (links (permission_cache rb))
     \<Longrightarrow> perm_cache_ok (rb\<lparr>permission_cache := c'\<rparr>)"
  unfolding perm_cache_ok_def by fastforce

lemma perm_cache_ok_insert:
  assumes "perm_cache_ok rb"
    and "set (links c') \<subseteq> insert (k, e, v) (set (links (permission_cache rb)))"
    and "\<And>rs. map_of role_hierarchy k = Some rs \<Longrightarrow> v = CPerms (combined_permissions rs)"
  shows "perm_cache_ok (rb\<lparr>permission_cache := c'\<rparr>)"
  using assms unfolding perm_cache_ok_def by fastforce

lemma set_getitem: "set (links (snd (ttl_getitem c now k))) \<subseteq> set (links c)"
  by (auto simp: ttl_getitem_def split: option.splits dest: map_of_SomeD)

lemma set_setitem:
  "set (links (ttl_setitem c now k v)) \<subseteq> insert (k, now + ttl c, v) (set (links c))"
  by (auto simp: ttl_setitem_def ttl_expire_def Let_def dest: in_set_dropD)

text \<open>Both methods that write the cache keep \<open>perm_cache_ok\<close>.\<close>

lemma get_user_permissions_preserves:
  assumes "perm_cache_ok rb"
  shows "perm_cache_ok (snd (get_user_permissions rb now role))"
proof (cases "ttl_contains (permission_cache rb) now role")
  case True
  then have "snd (get_user_permissions rb now role)
      = rb\<lparr>permission_cache := snd (ttl_getitem (permission_cache rb) now role)\<rparr>"
    by (simp add: get_user_permissions_def split: prod.splits option.splits)
  with perm_cache_ok_subset[OF assms set_getitem] show ?thesis
    by simp
next
  case False
  show ?thesis
  proof (cases "map_of role_hierarchy role")
    case None
    with False assms show ?thesis by (simp add: get_user_permissions_def)
  next
    case (Some rs)
    with False have "snd (get_user_permissions rb now role)
      = rb\<lparr>permission_cache :=
             ttl_setitem (permission_cache rb) now role (CPerms (combined_permissions rs))\<rparr>"
      by (simp add: get_user_permissions_def Let_def)
    moreover have "perm_cache_ok (rb\<lparr>permission_cache :=
             ttl_setitem (permission_cache rb) now role (CPerms (combined_permissions rs))\<rparr>)"
      by (rule perm_cache_ok_insert[OF assms set_setitem]) (simp add: Some)
    ultimately show ?thesis by simp
  qed
qed

lemma verify_permission_preserves:
  assumes "perm_cache_ok rb"
  shows "perm_cache_ok (snd (verify_permission L rb now token perm))"
proof (cases "ttl_contains (permission_cache rb) now (token @ '':'' @ perm)")
  case True
  then have "snd (verify_permission L rb now token perm)
      = rb\<lparr>permission_cache :=
             snd (ttl_getitem (permission_cache rb) now (token @ '':'' @ perm))\<rparr>"
    by (simp add: verify_permission_def split: prod.splits option.splits)
  with perm_cache_ok_subset[OF assms set_getitem] show ?thesis
    by simp
next
  case False
  show ?thesis
  proof (cases "resolve_permission L (jwt_handler rb) now token perm")
    case (Inl e)
    with False assms show ?thesis by (simp add: verify_permission_def)
  next
    case (Inr b)
    with False have "snd (verify_permission L rb now token perm)
      = rb\<lparr>permission_cache :=
             ttl_setitem (permission_cache rb) now (token @ '':'' @ perm) (CBool b)\<rparr>"
      by (simp add: verify_permission_def Let_def)
    moreover have "\<And>rs. map_of role_hierarchy (token @ '':'' @ perm) = Some rs \<Longrightarrow> False"
      using role_name_no_colon[of token perm] by simp
    then have "perm_cache_ok (rb\<lparr>permission_cache :=
             ttl_setitem (permission_cache rb) now (token @ '':'' @ perm) (CBool b)\<rparr>)"
      by (intro perm_cache_ok_insert[OF assms set_setitem]) blast
    ultimately show ?thesis by simp
  qed
qed

lemma perm_cache_ok_lookup:
  assumes "perm_cache_ok rb" "map_of (links (permission_cache rb)) k = Some (e, v)"
    "map_of role_hierarchy k = Some rs"
  shows "v = CPerms (combined_permissions rs)"
  using assms map_of_SomeD[OF assms(2)] unfolding perm_cache_ok_def by fastforce

lemma get_user_permissions_known:
  assumes "perm_cache_ok rb" "map_of role_hierarchy role = Some rs"
  shows "fst (get_user_permissions rb now role) = CPerms (combined_permissions rs)"
  using assms perm_cache_ok_lookup[OF assms(1) _ assms(2)]
  by (auto simp: get_user_permissions_def ttl_contains_def ttl_getitem_def Let_def
           split: option.splits prod.splits if_splits)

text \<open>
  C9. For a role of the hierarchy, \<open>get_user_permissions\<close> returns a sorted list without
  repetitions whose elements are exactly the permissions of the roles it inherits,
  whether the answer is computed or served from the cache. The permissions of
  \<open>integration_user\<close> are among those of \<open>org_admin\<close>, and \<open>super_admin\<close> gets the
  whole permission set.
\<close>

theorem get_user_permissions_sorted_union:
  assumes "perm_cache_ok rb" and "perm_cache_ok rb'"
  shows "(\<forall>role inherited. map_of role_hierarchy role = Some inherited \<longrightarrow>
            (\<exists>ps. fst (get_user_permissions rb now role) = CPerms ps \<and> sorted ps \<and> distinct ps
                  \<and> set ps = (\<Union>r\<in>set inherited. set (own_permissions r))))
       \<and> perms_of (fst (get_user_permissions rb' now' ''integration_user''))
            \<subseteq> perms_of (fst (get_user_permissions rb now ''org_admin''))
       \<and> fst (get_user_permissions rb now ''super_admin'') = CPerms (sort Permission_values)"
proof (intro conjI allI impI)
  fix role inherited
  assume "map_of role_hierarchy role = Some inherited"
  then show "\<exists>ps. fst (get_user_permissions rb now role) = CPerms ps \<and> sorted ps \<and> distinct ps
                  \<and> set ps = (\<Union>r\<in>set inherited. set (own_permissions r))"
    using get_user_permissions_known[OF assms(1), of role inherited now]
    by (simp add: combined_permissions_def)
next
  have a: "map_of role_hierarchy ''integration_user'' = Some [''integration_user'']"
    by (simp add: role_hierarchy_def)
  have b: "map_of role_hierarchy ''org_admin''
             = Some [''org_admin'', ''standard_user'', ''integration_user'']"
    by (simp add: role_hierarchy_def)
  show "perms_of (fst (get_user_permissions rb' now' ''integration_user''))
            \<subseteq> perms_of (fst (get_user_permissions rb now ''org_admin''))"
    by (auto simp add: get_user_permissions_known[OF assms(2) a]
          get_user_permissions_known[OF assms(1) b] combined_permissions_def)
next
  have c: "map_of role_hierarchy ''super_admin'' = Some UserRole_values"
    by (simp add: role_hierarchy_def)
  have d: "combined_permissions UserRole_values = sort Permission_values"
    by code_simp
  show "fst (get_user_permissions rb now ''super_admin'') = CPerms (sort Permission_values)"
    by (simp add: get_user_permissions_known[OF assms(1) c] d)
qed

theorem get_user_permissions_sorted_union_witness:
  "perm_cache_ok (RBACHandler_init []) \<and>
   fst (get_user_permissions (RBACHandler_init []) 0 ''super_admin'')
     = CPerms [''configure_integrations'', ''manage_templates'', ''manage_users'',
               ''read_data'', ''write_data'']"
proof -
  have s: "sort Permission_values
     = [''configure_integrations'', ''manage_templates'', ''manage_users'',
        ''read_data'', ''write_data'']"
    by code_simp
  show ?thesis
    using get_user_permissions_sorted_union[OF perm_cache_ok_init perm_cache_ok_init,
            of "[]" 0 "[]" 0]
    by (simp add: perm_cache_ok_init s)
qed

section \<open>Encryption\<close>

subsection \<open>The library instances meet what is asked of them\<close>

lemma demo_mask_length: "length (demo_mask k n d) = length d"
  by (simp add: demo_mask_def)

lemma demo_mask_nth: "i < length d \<Longrightarrow> demo_mask k n d ! i = d ! i XOR (k ! (i mod length k)) XOR (n ! (i mod length n))"
  by (simp add: demo_mask_def)

lemma demo_mask_involution: "demo_mask k n (demo_mask k n d) = d"
  by (rule nth_equalityI) (simp_all add: demo_mask_length demo_mask_nth xor.assoc)

lemma demo_tag_length: "length (demo_tag k n c) = 16"
  by (simp add: demo_tag_def)

lemma demo_crypto_correct: "gcm_correct demo_crypto"
  by (auto simp: gcm_correct_def demo_crypto_def gcm_params_ok_def demo_tag_length
        demo_mask_involution split: if_splits)

lemma fold_xor_acc: "fold (XOR) xs (a::8 word) = a XOR fold (XOR) xs 0"
proof (induction xs arbitrary: a)
  case Nil then show ?case by simp
next
  case (Cons x xs)
  have "fold (XOR) (x # xs) a = fold (XOR) xs (x XOR a)" by simp
  also have "\<dots> = (x XOR a) XOR fold (XOR) xs 0" by (rule Cons.IH)
  also have "\<dots> = a XOR (x XOR fold (XOR) xs 0)" by (simp add: ac_simps)
  also have "x XOR fold (XOR) xs 0 = fold (XOR) xs (x XOR 0)" using Cons.IH[of "x XOR 0"] by simp
  finally show ?case by simp
qed

lemma fold_xor_update:
  "j < length xs \<Longrightarrow> fold (XOR) (xs[j := xs ! j XOR m]) (0::8 word) = fold (XOR) xs 0 XOR m"
proof (induction xs arbitrary: j)
  case Nil then show ?case by simp
next
  case (Cons x xs)
  show ?case
  proof (cases j)
    case 0
    have "fold (XOR) ((x # xs)[0 := (x # xs) ! 0 XOR m]) 0 = fold (XOR) xs (x XOR m)" by simp
    also have "\<dots> = (x XOR m) XOR fold (XOR) xs 0" by (rule fold_xor_acc)
    also have "\<dots> = (x XOR fold (XOR) xs 0) XOR m" by (simp add: ac_simps)
    also have "x XOR fold (XOR) xs 0 = fold (XOR) (x # xs) 0" using fold_xor_acc[of xs x] by simp
    finally show ?thesis using 0 by simp
  next
    case (Suc j')
    with Cons.prems have j': "j' < length xs" by simp
    have "fold (XOR) ((x # xs)[j := (x # xs) ! j XOR m]) 0 = fold (XOR) (xs[j' := xs ! j' XOR m]) x"
      using Suc by simp
    also have "\<dots> = x XOR fold (XOR) (xs[j' := xs ! j' XOR m]) 0" by (rule fold_xor_acc)
    also have "\<dots> = x XOR (fold (XOR) xs 0 XOR m)" using Cons.IH[OF j'] by simp
    also have "\<dots> = (x XOR fold (XOR) xs 0) XOR m" by (simp add: ac_simps)
    also have "x XOR fold (XOR) xs 0 = fold (XOR) (x # xs) 0" using fold_xor_acc[of xs x] by simp
    finally show ?thesis .
  qed
qed

lemma bit_mask_nonzero: "push_bit (i mod 8) (1::8 word) \<noteq> 0"
proof -
  have "bit (push_bit (i mod 8) (1::8 word)) (i mod 8)"
    by (simp add: bit_push_bit_iff bit_exp_iff)
  then show ?thesis by auto
qed

lemma xor_changes: "m \<noteq> 0 \<Longrightarrow> (a::8 word) XOR m \<noteq> a"
  by (metis xor_self_eq bit.xor_left_self)

lemma xor_cancel3: "((x::8 word) XOR a) XOR y = (x XOR b) XOR y \<Longrightarrow> a = b"
  by (metis bit.xor_left_self word_bw_comms(3))

lemma demo_tag_changes:
  assumes "j < length c"
  shows "demo_tag k n (c[j := c ! j XOR push_bit (i mod 8) 1]) \<noteq> demo_tag k n c"
proof
  assume eq: "demo_tag k n (c[j := c ! j XOR push_bit (i mod 8) 1]) = demo_tag k n c"
  then have "demo_tag k n (c[j := c ! j XOR push_bit (i mod 8) 1]) ! 0 = demo_tag k n c ! 0" by simp
  then have "((k ! 0 XOR n ! (0 mod length n)) XOR (fold (XOR) c 0 XOR push_bit (i mod 8) 1))
                XOR of_nat (length c)
             = ((k ! 0 XOR n ! (0 mod length n)) XOR fold (XOR) c (0::8 word)) XOR of_nat (length c)"
    by (simp add: demo_tag_def fold_xor_update[OF assms] xor.assoc)
  then have "fold (XOR) c 0 XOR push_bit (i mod 8) 1 = fold (XOR) c (0::8 word)"
    by (rule xor_cancel3)
  with xor_changes[OF bit_mask_nonzero] show False by blast
qed

lemma demo_crypto_detects_bit_flips: "gcm_detects_bit_flips demo_crypto"
  unfolding gcm_detects_bit_flips_def
proof (intro allI impI)
  fix k n p c t and i :: nat
  assume enc: "gcm_encrypt demo_crypto k n p = Inr (c, t)" and i: "i < 8 * (length c + length t)"
  from enc have ok: "gcm_params_ok k n" and t: "t = demo_tag k n c"
    by (auto simp: demo_crypto_def split: if_splits)
  have lt: "length t = 16" using t by (simp add: demo_tag_length)
  let ?m = "push_bit (i mod 8) (1::8 word)"
  show "gcm_decrypt demo_crypto k n (drop (length c) (flip_bit i (c @ t)))
          (take (length c) (flip_bit i (c @ t))) = Inl InvalidTag"
  proof (cases "i div 8 < length c")
    case True
    then have f: "flip_bit i (c @ t) = c[i div 8 := c ! (i div 8) XOR ?m] @ t"
      by (simp add: flip_bit_def list_update_append nth_append)
    have "demo_tag k n (c[i div 8 := c ! (i div 8) XOR ?m]) \<noteq> t"
      using demo_tag_changes[OF True] t by simp
    with ok lt f show ?thesis by (simp add: demo_crypto_def)
  next
    case False
    let ?j = "i div 8 - length c"
    from False i have j: "?j < length t" by auto
    from False have f: "flip_bit i (c @ t) = c @ t[?j := t ! ?j XOR ?m]"
      by (simp add: flip_bit_def list_update_append nth_append)
    have "t[?j := t ! ?j XOR ?m] ! ?j \<noteq> t ! ?j"
      using j xor_changes[OF bit_mask_nonzero] by simp
    then have "t[?j := t ! ?j XOR ?m] \<noteq> demo_tag k n c" using t by metis
    with ok lt f show ?thesis by (simp add: demo_crypto_def)
  qed
qed

lemma index_of_nth: "distinct xs \<Longrightarrow> n < length xs \<Longrightarrow> index_of (xs ! n) xs = Some n"
proof (induction xs arbitrary: n)
  case Nil then show ?case by simp
next
  case (Cons x xs)
  show ?case
  proof (cases n)
    case 0 then show ?thesis by simp
  next
    case (Suc m)
    with Cons.prems have "xs ! m \<in> set xs" by simp
    with Cons.prems have "xs ! m \<noteq> x" by auto
    with Suc Cons show ?thesis by simp
  qed
qed

lemma b64_alphabet_props: "distinct b64_alphabet" "length b64_alphabet = 64" "CHR ''='' \<notin> set b64_alphabet"
  by (simp_all add: b64_alphabet_def)

lemma b64_index: "n < 64 \<Longrightarrow> index_of (b64_char n) b64_alphabet = Some n"
  unfolding b64_char_def using index_of_nth[OF b64_alphabet_props(1)] b64_alphabet_props(2) by simp

lemma b64_char_not_pad: "n < 64 \<Longrightarrow> b64_char n \<noteq> CHR ''=''"
  unfolding b64_char_def using b64_alphabet_props(2,3) nth_mem[of n b64_alphabet] by metis

lemma byte_split1: "(of_nat (unat a div 4 * 4 + (unat a mod 4 * 16 + m) div 16) :: 8 word) = a" if "m < 16" for a :: "8 word"
proof -
  have "(unat a mod 4 * 16 + m) div 16 = unat a mod 4" using that by simp
  then show ?thesis by simp
qed

lemma byte_split2: "(of_nat ((x * 16 + unat b div 16) mod 16 * 16 + (unat b mod 16 * 4 + m) div 4) :: 8 word) = b" if "m < 4" for b :: "8 word"
proof -
  have lt: "unat b < 256" using unsigned_less[of b] by simp
  have "(x * 16 + unat b div 16) mod 16 = unat b div 16" using lt by simp
  moreover have "(unat b mod 16 * 4 + m) div 4 = unat b mod 16" using that by simp
  ultimately show ?thesis by simp
qed

lemma byte_split3: "(of_nat ((x * 4 + unat c div 64) mod 4 * 64 + unat c mod 64) :: 8 word) = c" for c :: "8 word"
proof -
  have lt: "unat c < 256" using unsigned_less[of c] by simp
  have "(x * 4 + unat c div 64) mod 4 = unat c div 64" using lt by simp
  then show ?thesis by simp
qed

lemma sextets:
  fixes a b c :: "8 word"
  shows "unat a div 4 < 64" "unat a mod 4 * 16 + unat b div 16 < 64" "unat b mod 16 * 4 + unat c div 64 < 64"
    "unat c mod 64 < 64" "unat a mod 4 * 16 < 64" "unat b mod 16 * 4 < 64"
proof -
  have "unat a < 256" "unat b < 256" "unat c < 256"
    using unsigned_less[of a] unsigned_less[of b] unsigned_less[of c] by simp_all
  then show "unat a div 4 < 64" "unat a mod 4 * 16 + unat b div 16 < 64" "unat b mod 16 * 4 + unat c div 64 < 64"
    "unat c mod 64 < 64" "unat a mod 4 * 16 < 64" "unat b mod 16 * 4 < 64"
    by simp_all
qed

lemma std_b64_roundtrip: "std_b64decode (std_b64encode bs) = Inr bs"
proof (induction bs rule: std_b64encode.induct)
  case 1
  then show ?case by simp
next
  case (2 a)
  have "(of_nat (unat a div 4 * 4 + (unat a mod 4 * 16) div 16) :: 8 word) = a"
    using byte_split1[of 0 a] by simp
  then show ?case
    by (simp add: b64_index sextets)
next
  case (3 a b)
  have 1: "(of_nat (unat a div 4 * 4 + (unat a mod 4 * 16 + unat b div 16) div 16) :: 8 word) = a"
  proof (rule byte_split1)
    have "unat b < 256" using unsigned_less[of b] by simp
    then show "unat b div 16 < 16" by simp
  qed
  have 2: "(of_nat ((unat a mod 4 * 16 + unat b div 16) mod 16 * 16 + (unat b mod 16 * 4) div 4) :: 8 word) = b"
    using byte_split2[of 0 "unat a mod 4" b] by simp
  show ?case
    using 1 2 by (simp add: b64_index b64_char_not_pad sextets)
next
  case (4 a b c r)
  have 1: "(of_nat (unat a div 4 * 4 + (unat a mod 4 * 16 + unat b div 16) div 16) :: 8 word) = a"
  proof (rule byte_split1)
    have "unat b < 256" using unsigned_less[of b] by simp
    then show "unat b div 16 < 16" by simp
  qed
  have 2: "(of_nat ((unat a mod 4 * 16 + unat b div 16) mod 16 * 16 + (unat b mod 16 * 4 + unat c div 64) div 4) :: 8 word) = b"
  proof (rule byte_split2)
    have "unat c < 256" using unsigned_less[of c] by simp
    then show "unat c div 64 < 4" by simp
  qed
  have 3: "(of_nat ((unat b mod 16 * 4 + unat c div 64) mod 4 * 64 + unat c mod 64) :: 8 word) = c"
    by (rule byte_split3)
  show ?case
    using 1 2 3 4 by (simp add: b64_index b64_char_not_pad sextets)
qed

lemma demo_crypto_b64_roundtrip: "b64_roundtrip demo_crypto"
  by (simp add: b64_roundtrip_def demo_crypto_def std_b64_roundtrip)

subsection \<open>Round trip and tamper detection\<close>

text \<open>The strict decoder fails in one way only.\<close>

lemma utf8_decode_from_error: "utf8_decode_from st bs = Inl e \<Longrightarrow> e = UnicodeDecodeError"
proof (induction bs arbitrary: st e)
  case Nil
  then show ?case by (cases st) simp_all
next
  case (Cons b bs)
  show ?case
  proof (cases st)
    case Start
    with Cons show ?thesis
      by (auto split: if_splits sum.splits option.splits)
  next
    case (Need n acc lo hi)
    with Cons show ?thesis
      by (auto split: if_splits sum.splits)
  qed
qed

lemma payload_split:
  assumes "length n = 12" "length t = 16"
  shows "payload_nonce (n @ c @ t) = n" "payload_tag (n @ c @ t) = t"
    "payload_ciphertext (n @ c @ t) = c"
  using assms
  by (simp_all add: payload_nonce_def payload_tag_def payload_ciphertext_def
        GCM_NONCE_LENGTH_def GCM_TAG_LENGTH_def)

lemma encrypt_data_sealed:
  assumes "length k = 32" and "data_bytes data = Inr p" and "gcm_encrypt L k n p = Inr (c, t)"
  shows "encrypt_data L SK n data (Some k) = Inr (b64encode L (n @ c @ t))"
proof -
  have "k \<noteq> []" using assms(1) by auto
  with assms show ?thesis
    by (simp add: encrypt_data_def encrypt_try_def key_or_default_def ENCRYPTION_KEY_LENGTH_def)
qed

lemma decrypt_data_payload:
  assumes "length k = 32" and "b64decode L s = Inr bs"
  shows "decrypt_data L SK s (Some k) =
     (case gcm_decrypt L k (payload_nonce bs) (payload_tag bs) (payload_ciphertext bs) of
        Inl InvalidTag \<Rightarrow>
          Inl (ValidationException ''Authentication failed - data may be corrupted''
                 ''crypto_005'' None)
      | Inl e \<Rightarrow> Inl (ValidationException ''Decryption failed'' ''crypto_006'' (Some e))
      | Inr pt \<Rightarrow>
          (case utf8_decode pt of
             Inr text \<Rightarrow> Inr text
           | Inl e \<Rightarrow> Inl (ValidationException ''Decryption failed'' ''crypto_006''
                              (Some UnicodeDecodeError))))"
proof -
  have k: "k \<noteq> []" using assms(1) by auto
  have u: "\<And>pt e. utf8_decode pt = Inl e \<Longrightarrow> e = UnicodeDecodeError"
    by (simp add: utf8_decode_def utf8_decode_from_error)
  show ?thesis
  proof (cases "gcm_decrypt L k (payload_nonce bs) (payload_tag bs) (payload_ciphertext bs)")
    case (Inl e)
    with assms k show ?thesis
      by (cases e) (simp_all add: decrypt_data_def decrypt_try_def key_or_default_def
            ENCRYPTION_KEY_LENGTH_def)
  next
    case (Inr pt)
    note dec = this
    show ?thesis
    proof (cases "utf8_decode pt")
      case (Inl e)
      with u have "e = UnicodeDecodeError" by blast
      with Inl dec assms k show ?thesis
        by (simp add: decrypt_data_def decrypt_try_def key_or_default_def
              ENCRYPTION_KEY_LENGTH_def)
    next
      case (Inr decoded)
      with dec assms k show ?thesis
        by (simp add: decrypt_data_def decrypt_try_def key_or_default_def
              ENCRYPTION_KEY_LENGTH_def)
    qed
  qed
qed

text \<open>
  C1, as amended. With AES-GCM and base64 behaving as \<open>gcm_correct\<close> and
  \<open>b64_roundtrip\<close> say, for every 32-byte key and every data whose bytes are \<open>p\<close>,
  \<open>encrypt_data\<close> returns a sealed payload and \<open>decrypt_data\<close> applied to it returns the
  text that \<open>p\<close> decodes to as UTF-8, a \<open>str\<close>; when \<open>p\<close> is not valid UTF-8 it raises
  \<open>ValidationException\<close> with code \<open>crypto_006\<close> instead.
\<close>

theorem decrypt_encrypt_roundtrip:
  assumes "gcm_correct L" and "b64_roundtrip L"
    and "length k = 32" and "length n = 12" and "data_bytes data = Inr p"
  shows "\<exists>sealed. encrypt_data L SK n data (Some k) = Inr sealed \<and>
           decrypt_data L SK sealed (Some k) =
             (case utf8_decode p of
                Inr text \<Rightarrow> Inr text
              | Inl e \<Rightarrow> Inl (ValidationException ''Decryption failed'' ''crypto_006''
                                 (Some UnicodeDecodeError)))"
proof -
  from assms(1,3,4) obtain c t where
    enc: "gcm_encrypt L k n p = Inr (c, t)" and t: "length t = 16"
    and dec: "gcm_decrypt L k n t c = Inr p"
    unfolding gcm_correct_def by blast
  have b: "b64decode L (b64encode L (n @ c @ t)) = Inr (n @ c @ t)"
    using assms(2) by (simp add: b64_roundtrip_def)
  have "decrypt_data L SK (b64encode L (n @ c @ t)) (Some k) =
             (case utf8_decode p of
                Inr text \<Rightarrow> Inr text
              | Inl e \<Rightarrow> Inl (ValidationException ''Decryption failed'' ''crypto_006''
                                 (Some UnicodeDecodeError)))"
    by (simp add: decrypt_data_payload[OF assms(3) b] payload_split[OF assms(4) t] dec)
  with encrypt_data_sealed[OF assms(3) assms(5) enc] show ?thesis by blast
qed

text \<open>Witness for C1 as amended: the two bytes of \<open>hi\<close> under a key of 32 bytes 0x2A.\<close>

theorem decrypt_encrypt_roundtrip_witness:
  "gcm_correct demo_crypto \<and> b64_roundtrip demo_crypto \<and>
   length (replicate 32 (0x2A :: 8 word)) = 32 \<and> length (replicate 12 (7 :: 8 word)) = 12 \<and>
   data_bytes (Bytes [0x68, 0x69]) = Inr [0x68, 0x69] \<and>
   (\<exists>sealed. encrypt_data demo_crypto [] (replicate 12 7) (Bytes [0x68, 0x69])
                (Some (replicate 32 0x2A)) = Inr sealed \<and>
              decrypt_data demo_crypto [] sealed (Some (replicate 32 0x2A)) = Inr [0x68, 0x69])"
proof -
  have d: "data_bytes (Bytes [0x68, 0x69]) = Inr [0x68, 0x69]"
    by (simp add: data_bytes_def)
  have u: "utf8_decode [0x68, 0x69] = Inr [0x68, 0x69]"
    by (simp add: utf8_decode_def)
  show ?thesis
    using decrypt_encrypt_roundtrip[OF demo_crypto_correct demo_crypto_b64_roundtrip _ _ d,
            of "replicate 32 0x2A" "replicate 12 7" "[]"]
    by (simp add: demo_crypto_correct demo_crypto_b64_roundtrip d u)
qed

text \<open>
  C1 as stated fails: the single byte 0xFF is encrypted, and decrypting the result
  under the same key raises instead of returning the byte.
\<close>

theorem decrypt_not_utf8_counterexample:
  "encrypt_data demo_crypto [] (replicate 12 7) (Bytes [0xFF]) (Some (replicate 32 0x2A))
     = Inr ''BwcHBwcHBwcHBwcH0v7+/v7+/v7+/v7+/v7+/v4='' \<and>
   decrypt_data demo_crypto [] ''BwcHBwcHBwcHBwcH0v7+/v7+/v7+/v7+/v7+/v4=''
       (Some (replicate 32 0x2A))
     = Inl (ValidationException ''Decryption failed'' ''crypto_006'' (Some UnicodeDecodeError))"
  by code_simp

lemma encrypt_data_InrD:
  assumes "encrypt_data L SK n data (Some k) = Inr sealed" and "length k = 32"
  shows "\<exists>p c t. data_bytes data = Inr p \<and> gcm_encrypt L k n p = Inr (c, t) \<and>
           sealed = b64encode L (n @ c @ t)"
proof -
  have k: "k \<noteq> []" using assms(2) by auto
  show ?thesis
    using assms k
    by (auto simp: encrypt_data_def encrypt_try_def key_or_default_def ENCRYPTION_KEY_LENGTH_def
          split: sum.splits prod.splits if_splits)
qed

lemma flip_bit_length: "length (flip_bit i bs) = length bs"
  by (simp add: flip_bit_def)

text \<open>
  C2. With AES-GCM behaving as \<open>gcm_correct\<close> and \<open>gcm_detects_bit_flips\<close> say, take any
  sealed payload that \<open>encrypt_data\<close> produced under a 32-byte key and flip any one bit
  after its 12-byte nonce, that is in its ciphertext or its tag: \<open>decrypt_data\<close> raises
  the authentication failure (\<open>ValidationException\<close>, code \<open>crypto_005\<close>) and returns no
  plaintext.
\<close>

theorem tamper_detection:
  assumes "gcm_correct L" and "gcm_detects_bit_flips L" and "b64_roundtrip L"
    and "length k = 32" and "length n = 12"
    and "encrypt_data L SK n data (Some k) = Inr sealed"
    and "b64decode L sealed = Inr payload"
    and "i < 8 * (length payload - 12)"
  shows "decrypt_data L SK (b64encode L (take 12 payload @ flip_bit i (drop 12 payload)))
           (Some k) =
         Inl (ValidationException ''Authentication failed - data may be corrupted''
                ''crypto_005'' None)"
proof -
  from encrypt_data_InrD[OF assms(6) assms(4)] obtain p c t where
    enc: "gcm_encrypt L k n p = Inr (c, t)" and sealed: "sealed = b64encode L (n @ c @ t)"
    by blast
  from assms(1,4,5) enc have t: "length t = 16"
    unfolding gcm_correct_def by (metis Inr_inject prod.inject)
  have payload: "payload = n @ c @ t"
    using assms(3,7) sealed by (simp add: b64_roundtrip_def)
  let ?x = "flip_bit i (c @ t)"
  have i: "i < 8 * (length c + length t)"
    using assms(5,8) payload by simp
  have rej: "gcm_decrypt L k n (drop (length c) ?x) (take (length c) ?x) = Inl InvalidTag"
    using assms(2) enc i unfolding gcm_detects_bit_flips_def by blast
  have x: "?x = take (length c) ?x @ drop (length c) ?x" by simp
  have lt: "length (drop (length c) ?x) = 16"
    using t by (simp add: flip_bit_length)
  have b: "b64decode L (b64encode L (n @ take (length c) ?x @ drop (length c) ?x))
             = Inr (n @ take (length c) ?x @ drop (length c) ?x)"
    using assms(3) unfolding b64_roundtrip_def by blast
  have "decrypt_data L SK (b64encode L (n @ take (length c) ?x @ drop (length c) ?x)) (Some k) =
         Inl (ValidationException ''Authentication failed - data may be corrupted''
                ''crypto_005'' None)"
    by (simp only: decrypt_data_payload[OF assms(4) b] payload_split[OF assms(5) lt] rej)
       simp
  moreover have "take 12 payload @ flip_bit i (drop 12 payload) = n @ ?x"
    using payload assms(5) by simp
  ultimately show ?thesis by simp
qed

text \<open>Witness for C2: bit 3 of the first ciphertext byte of the sealed \<open>hi\<close>.\<close>

theorem tamper_detection_witness:
  "gcm_correct demo_crypto \<and> gcm_detects_bit_flips demo_crypto \<and> b64_roundtrip demo_crypto \<and>
   length (replicate 32 (0x2A :: 8 word)) = 32 \<and> length (replicate 12 (7 :: 8 word)) = 12 \<and>
   encrypt_data demo_crypto [] (replicate 12 7) (Bytes [0x68, 0x69]) (Some (replicate 32 0x2A))
     = Inr ''BwcHBwcHBwcHBwcHRUQuLi4uLi4uLi4uLi4uLi4u'' \<and>
   b64decode demo_crypto ''BwcHBwcHBwcHBwcHRUQuLi4uLi4uLi4uLi4uLi4u''
     = Inr (replicate 12 7 @ [0x45, 0x44] @ replicate 16 0x2E) \<and>
   (3 :: nat) < 8 * (length (replicate 12 (7 :: 8 word) @ [0x45, 0x44] @ replicate 16 0x2E) - 12) \<and>
   decrypt_data demo_crypto []
       (b64encode demo_crypto (replicate 12 7 @ [0x4D, 0x44] @ replicate 16 0x2E))
       (Some (replicate 32 0x2A))
     = Inl (ValidationException ''Authentication failed - data may be corrupted''
              ''crypto_005'' None)"
proof -
  have e: "encrypt_data demo_crypto [] (replicate 12 7) (Bytes [0x68, 0x69])
             (Some (replicate 32 0x2A)) = Inr ''BwcHBwcHBwcHBwcHRUQuLi4uLi4uLi4uLi4uLi4u''"
    by code_simp
  have d: "b64decode demo_crypto ''BwcHBwcHBwcHBwcHRUQuLi4uLi4uLi4uLi4uLi4u''
             = Inr (replicate 12 7 @ [0x45, 0x44] @ replicate 16 0x2E)"
    by code_simp
  have i: "(3 :: nat) < 8 * (length (replicate 12 (7 :: 8 word) @ [0x45, 0x44] @ replicate 16 0x2E) - 12)"
    by simp
  have f: "take 12 (replicate 12 (7 :: 8 word) @ [0x45, 0x44] @ replicate 16 0x2E)
             @ flip_bit 3 (drop 12 (replicate 12 (7 :: 8 word) @ [0x45, 0x44] @ replicate 16 0x2E))
           = replicate 12 7 @ [0x4D, 0x44] @ replicate 16 0x2E"
    by (simp add: flip_bit_def)
  show ?thesis
    using tamper_detection[OF demo_crypto_correct demo_crypto_detects_bit_flips
            demo_crypto_b64_roundtrip _ _ e d i]
    by (simp only: f e d demo_crypto_correct demo_crypto_detects_bit_flips
          demo_crypto_b64_roundtrip) simp
qed

section \<open>Tokens\<close>

text \<open>
  C7. Whatever its arguments, a call of \<open>create_token\<close> ends in the \<open>@cached\<close> wrapper:
  the cache key holds the \<open>data\<close> dict, which cannot be hashed, so the call raises
  \<open>TypeError\<close> before the body runs, and no token and no \<open>jti\<close> is produced.
\<close>

theorem create_token_raises_TypeError:
  "create_token L h ctc now uuid data roles permissions expires_delta = (Inl TypeError, ctc)"
  by (simp add: create_token_def hashkey_def)

subsection \<open>Verification\<close>

lemma ttl_setitem_map_of:
  "map_of (links (ttl_setitem c now k v)) k = Some (now + ttl c, v)"
proof -
  define live where "live = ttl_expire c now"
  define room where "room = (if k \<in> fst ` set live then filter (\<lambda>l. fst l \<noteq> k) live
                  else drop (length live + 1 - maxsize c) live)"
  have "k \<notin> fst ` set room"
    unfolding room_def by (auto dest: in_set_dropD)
  then have "map_of room k = None" by (simp add: map_of_eq_None_iff)
  moreover have "links (ttl_setitem c now k v) = room @ [(k, now + ttl c, v)]"
    by (simp add: ttl_setitem_def Let_def room_def live_def)
  ultimately show ?thesis by (simp add: map_add_def)
qed

lemma ttl_contains_setitem: "0 < ttl c \<Longrightarrow> ttl_contains (ttl_setitem c now k v) now k"
  by (simp add: ttl_contains_def ttl_setitem_map_of)

lemma ttl_contains_later:
  "\<not> ttl_contains c now k \<Longrightarrow> now \<le> later \<Longrightarrow> \<not> ttl_contains c later k"
  by (auto simp: ttl_contains_def split: option.splits)

lemma verify_token_cases:
  "verify_token L h now token =
     (if ttl_contains (token_blacklist h) now token
      then Inl (AuthenticationException ''Token has been revoked'' INVALID_TOKEN None)
      else case jwt_decode L token (secret_key h) [algorithm h] now of
             Inl e \<Rightarrow> if is_JWTError e
                      then Inl (AuthenticationException ''Invalid authentication token''
                                  INVALID_TOKEN (Some e))
                      else Inl e
           | Inr payload \<Rightarrow>
               if dict_get payload ''token_version'' \<noteq> PStr ''1.0''
               then Inl (AuthenticationException ''Invalid token version'' INVALID_TOKEN None)
               else Inr payload)"
  by (simp add: verify_token_def)

lemma verify_token_InrD:
  "verify_token L h now token = Inr payload \<Longrightarrow>
     \<not> ttl_contains (token_blacklist h) now token \<and>
     jwt_decode L token (secret_key h) [algorithm h] now = Inr payload \<and>
     dict_get payload ''token_version'' = PStr ''1.0''"
  by (auto simp: verify_token_def split: if_splits sum.splits)

text \<open>
  C3, as amended. With python-jose behaving as \<open>jose_raises_JWTError\<close>,
  \<open>jose_checks_exp\<close> and \<open>jose_reads_claims\<close> say, every failure of \<open>verify_token\<close> is an
  \<open>AuthenticationException\<close> with the one code \<open>INVALID_TOKEN\<close>: with the message
  \<open>Token has been revoked\<close> for a blacklisted token, \<open>Invalid authentication token\<close>
  for whatever python-jose rejects (bad signature, malformed structure, and expiry
  alike), \<open>Invalid token version\<close> for a version other than \<open>1.0\<close>. A token verified
  at one time fails at any later time past its \<open>exp\<close>, and fails as revoked right after
  \<open>blacklist_token\<close> is called on it.
\<close>

theorem verify_token_failures:
  assumes "jose_raises_JWTError L" and "jose_checks_exp L" and "jose_reads_claims L"
    and "0 < ttl (token_blacklist h)"
  shows "(\<forall>e. verify_token L h now token = Inl e \<longrightarrow>
             (\<exists>m d. e = AuthenticationException m INVALID_TOKEN d))
       \<and> (ttl_contains (token_blacklist h) now token \<longrightarrow>
             verify_token L h now token =
               Inl (AuthenticationException ''Token has been revoked'' INVALID_TOKEN None))
       \<and> (\<forall>e. \<not> ttl_contains (token_blacklist h) now token \<longrightarrow>
             jwt_decode L token (secret_key h) [algorithm h] now = Inl e \<longrightarrow>
             verify_token L h now token =
               Inl (AuthenticationException ''Invalid authentication token'' INVALID_TOKEN (Some e)))
       \<and> (\<forall>payload. \<not> ttl_contains (token_blacklist h) now token \<longrightarrow>
             jwt_decode L token (secret_key h) [algorithm h] now = Inr payload \<longrightarrow>
             dict_get payload ''token_version'' \<noteq> PStr ''1.0'' \<longrightarrow>
             verify_token L h now token =
               Inl (AuthenticationException ''Invalid token version'' INVALID_TOKEN None))
       \<and> (\<forall>payload e later. verify_token L h now token = Inr payload \<longrightarrow>
             map_of payload ''exp'' = Some (PInt e) \<longrightarrow> e < later \<longrightarrow> now \<le> later \<longrightarrow>
             verify_token L h later token =
               Inl (AuthenticationException ''Invalid authentication token'' INVALID_TOKEN
                      (Some (JWTError ExpiredSignatureError))))
       \<and> (\<forall>payload. verify_token L h now token = Inr payload \<longrightarrow>
             verify_token L (blacklist_token L h now token) now token =
               Inl (AuthenticationException ''Token has been revoked'' INVALID_TOKEN None))"
proof (intro conjI allI impI)
  fix e assume "verify_token L h now token = Inl e"
  with assms(1) show "\<exists>m d. e = AuthenticationException m INVALID_TOKEN d"
    unfolding jose_raises_JWTError_def
    by (auto simp: verify_token_def split: if_splits sum.splits)
next
  assume "ttl_contains (token_blacklist h) now token"
  then show "verify_token L h now token =
               Inl (AuthenticationException ''Token has been revoked'' INVALID_TOKEN None)"
    by (simp add: verify_token_def)
next
  fix e assume "\<not> ttl_contains (token_blacklist h) now token"
    and "jwt_decode L token (secret_key h) [algorithm h] now = Inl e"
  with assms(1) show "verify_token L h now token =
               Inl (AuthenticationException ''Invalid authentication token'' INVALID_TOKEN (Some e))"
    unfolding jose_raises_JWTError_def by (auto simp: verify_token_def)
next
  fix payload assume "\<not> ttl_contains (token_blacklist h) now token"
    and "jwt_decode L token (secret_key h) [algorithm h] now = Inr payload"
    and "dict_get payload ''token_version'' \<noteq> PStr ''1.0''"
  then show "verify_token L h now token =
               Inl (AuthenticationException ''Invalid token version'' INVALID_TOKEN None)"
    by (simp add: verify_token_def)
next
  fix payload e later
  assume v: "verify_token L h now token = Inr payload"
    and e: "map_of payload ''exp'' = Some (PInt e)" "e < later" and l: "now \<le> later"
  from verify_token_InrD[OF v] have nb: "\<not> ttl_contains (token_blacklist h) now token"
    and d: "jwt_decode L token (secret_key h) [algorithm h] now = Inr payload" by simp_all
  from assms(2) d e have "jwt_decode L token (secret_key h) [algorithm h] later
      = Inl (JWTError ExpiredSignatureError)"
    unfolding jose_checks_exp_def by blast
  with ttl_contains_later[OF nb l]
  show "verify_token L h later token =
               Inl (AuthenticationException ''Invalid authentication token'' INVALID_TOKEN
                      (Some (JWTError ExpiredSignatureError)))"
    by (simp add: verify_token_def is_JWTError_def)
next
  fix payload
  assume v: "verify_token L h now token = Inr payload"
  from verify_token_InrD[OF v] have
    d: "jwt_decode L token (secret_key h) [algorithm h] now = Inr payload" by simp
  with assms(3) have "jwt_get_unverified_claims L token = Inr payload"
    unfolding jose_reads_claims_def by blast
  then have "token_blacklist (blacklist_token L h now token)
      = ttl_setitem (token_blacklist h) now token (dict_get payload ''jti'')"
    by (simp add: blacklist_token_def)
  with ttl_contains_setitem[OF assms(4)]
  show "verify_token L (blacklist_token L h now token) now token =
               Inl (AuthenticationException ''Token has been revoked'' INVALID_TOKEN None)"
    by (simp add: verify_token_def)
qed

subsection \<open>The scenario library meets what is asked of it\<close>

lemma jose_of_table_raises: "jose_raises_JWTError (jose_of_table tbl)"
  by (auto simp: jose_raises_JWTError_def jose_of_table_def is_JWTError_def
        split: option.splits if_splits pyval.splits)

lemma jose_of_table_exp: "jose_checks_exp (jose_of_table tbl)"
  by (auto simp: jose_checks_exp_def jose_of_table_def split: option.splits if_splits pyval.splits)

lemma jose_of_table_reads: "jose_reads_claims (jose_of_table tbl)"
  by (auto simp: jose_reads_claims_def jose_of_table_def split: option.splits if_splits pyval.splits)

lemma nth_mem_eq: "i < length xs \<Longrightarrow> xs ! i = x \<Longrightarrow> x \<in> set xs"
  by auto

lemma jose_of_table_decodes:
  assumes "distinct (map fst tbl)"
  shows "jose_decodes_encoded (jose_of_table tbl)"
  unfolding jose_decodes_encoded_def
proof (intro allI impI)
  fix claims key alg token key' algs now payload
  assume enc: "jwt_encode (jose_of_table tbl) claims key alg = Inr token"
    and dec: "jwt_decode (jose_of_table tbl) token key' algs now = Inr payload"
  from enc obtain t k c where f: "find (\<lambda>(t, k, c). k = key \<and> c = claims) tbl = Some (t, k, c)"
    and t: "t = token"
    by (auto simp: jose_of_table_def split: option.splits)
  from f have "(t, k, c) \<in> set tbl" "k = key" "c = claims"
    by (auto simp: find_Some_iff intro: nth_mem_eq)
  with assms t have m: "map_of tbl token = Some (key, claims)"
    by (simp add: map_of_is_SomeI)
  with dec show "key' = key \<and> payload = claims"
    by (auto simp: jose_of_table_def split: option.splits if_splits pyval.splits)
qed



lemma scenario_values:
  "claims_user = [(''sub'', PStr ''u1''), (''exp'', PInt 100), (''iat'', PInt 0), (''jti'', PStr ''jti-1''),
     (''roles'', PList [PStr ''standard_user'']), (''permissions'', PDict []), (''token_version'', PStr ''1.0'')]"
  "claims_admin = [(''sub'', PStr ''u2''), (''role'', PStr ''org_admin''), (''exp'', PInt 100), (''iat'', PInt 0), (''jti'', PStr ''jti-2''),
     (''roles'', PList [PStr ''org_admin'']), (''permissions'', PDict []), (''token_version'', PStr ''1.0'')]"
  by (simp_all add: claims_user_def claims_admin_def token_data_def dict_update_def)


lemma scenario_contracts:
  "jose_raises_JWTError scenario_jose" "jose_checks_exp scenario_jose"
  "jose_reads_claims scenario_jose" "jose_decodes_encoded scenario_jose"
  unfolding scenario_jose_def
  by (simp_all add: jose_of_table_raises jose_of_table_exp jose_of_table_reads
        jose_of_table_decodes)

lemma scenario_handler: "0 < ttl (token_blacklist (JWTHandler_init scenario_key))"
  by (simp add: JWTHandler_init_def TTLCache_def REFRESH_TOKEN_EXPIRE_DAYS_def)

lemmas scenario_simps =
  verify_token_def scenario_jose_def jose_of_table_def JWTHandler_init_def TTLCache_def
  ttl_contains_def scenario_values dict_get_def scenario_key_def scenario_key2_def
  INVALID_TOKEN_def is_JWTError_def

lemma scenario_verify_user:
  "verify_token scenario_jose (JWTHandler_init scenario_key) 50 ''token-u1'' = Inr claims_user"
  by (simp add: scenario_simps)

text \<open>
  Witness for C3 as amended: the scenario token of user \<open>u1\<close>, verified at time 50,
  expired at time 200, and revoked once blacklisted.
\<close>

theorem verify_token_failures_witness:
  "jose_raises_JWTError scenario_jose \<and> jose_checks_exp scenario_jose \<and>
   jose_reads_claims scenario_jose \<and>
   0 < ttl (token_blacklist (JWTHandler_init scenario_key)) \<and>
   verify_token scenario_jose (JWTHandler_init scenario_key) 50 ''token-u1'' = Inr claims_user \<and>
   map_of claims_user ''exp'' = Some (PInt 100) \<and> (100 :: int) < 200 \<and> (50 :: int) \<le> 200 \<and>
   verify_token scenario_jose (JWTHandler_init scenario_key) 200 ''token-u1'' =
     Inl (AuthenticationException ''Invalid authentication token'' INVALID_TOKEN
            (Some (JWTError ExpiredSignatureError))) \<and>
   verify_token scenario_jose
       (blacklist_token scenario_jose (JWTHandler_init scenario_key) 50 ''token-u1'') 50
       ''token-u1'' =
     Inl (AuthenticationException ''Token has been revoked'' INVALID_TOKEN None)"
proof -
  note T = verify_token_failures[OF scenario_contracts(1,2,3) scenario_handler,
             of 50 "''token-u1''"]
  have e: "map_of claims_user ''exp'' = Some (PInt 100)"
    by (simp add: scenario_values)
  from T have c5: "\<forall>payload e later.
       verify_token scenario_jose (JWTHandler_init scenario_key) 50 ''token-u1'' = Inr payload \<longrightarrow>
       map_of payload ''exp'' = Some (PInt e) \<longrightarrow> e < later \<longrightarrow> 50 \<le> later \<longrightarrow>
       verify_token scenario_jose (JWTHandler_init scenario_key) later ''token-u1'' =
         Inl (AuthenticationException ''Invalid authentication token'' INVALID_TOKEN
                (Some (JWTError ExpiredSignatureError)))"
    by (elim conjE)
  have "verify_token scenario_jose (JWTHandler_init scenario_key) 200 ''token-u1'' =
     Inl (AuthenticationException ''Invalid authentication token'' INVALID_TOKEN
            (Some (JWTError ExpiredSignatureError)))"
    by (rule c5[rule_format, OF scenario_verify_user e]) simp_all
  moreover from T scenario_verify_user
  have "verify_token scenario_jose
       (blacklist_token scenario_jose (JWTHandler_init scenario_key) 50 ''token-u1'') 50
       ''token-u1'' =
     Inl (AuthenticationException ''Token has been revoked'' INVALID_TOKEN None)"
    by blast
  ultimately show ?thesis
    using scenario_contracts scenario_handler scenario_verify_user e by simp
qed

text \<open>
  C3 as stated fails: an expired token and a string that is no token raise the same
  exception class with the same code and message, and a revoked token the same class
  and code; no \<open>TokenExpired\<close> or \<open>TokenRevoked\<close> is raised.
\<close>

theorem verify_token_one_error_kind_counterexample:
  "verify_token scenario_jose (JWTHandler_init scenario_key) 200 ''token-u1'' =
     Inl (AuthenticationException ''Invalid authentication token'' ''auth_002''
            (Some (JWTError ExpiredSignatureError))) \<and>
   verify_token scenario_jose (JWTHandler_init scenario_key) 50 ''no-token'' =
     Inl (AuthenticationException ''Invalid authentication token'' ''auth_002''
            (Some (JWTError JWTErrorBase))) \<and>
   verify_token scenario_jose
       (blacklist_token scenario_jose (JWTHandler_init scenario_key) 50 ''token-u1'') 50
       ''token-u1'' =
     Inl (AuthenticationException ''Token has been revoked'' ''auth_002'' None)"
  by (simp add: scenario_simps blacklist_token_def ttl_setitem_def ttl_expire_def
        REFRESH_TOKEN_EXPIRE_DAYS_def TOKEN_BLACKLIST_SIZE_def)

subsection \<open>Rotation of the signing key\<close>





section \<open>Authorization checks\<close>














text \<open>
  Base claims may carry \<open>role\<close> themselves: the body of \<open>create_token\<close> copies them,
  and \<open>verify_permission\<close> grants on a token signed from them.
\<close>

lemma body_copies_role_claim:
  "create_token_body scenario_jose (JWTHandler_init scenario_key) 0 ''jti-2''
       [(''sub'', PStr ''u2''), (''role'', PStr ''org_admin'')] (PList [PStr ''org_admin''])
       (PDict []) (Some 100)
     = Inr ''token-u2'' \<and>
   fst (verify_permission scenario_jose (RBACHandler_init scenario_key) 50 ''token-u2''
          ''configure_integrations'') = CBool True"
  by (simp add: create_token_body_def verify_permission_def resolve_permission_def
        RBACHandler_init_def scenario_simps claims_user_def[symmetric] claims_admin_def[symmetric]
        ttl_setitem_def ttl_expire_def role_hierarchy_def own_permissions_def
        role_permissions_def Permission_values_def UserRole_values_def)

section \<open>Rotation of the encryption keys\<close>

text \<open>
  With any key in the store other than the new one, the retention filter raises, after
  the new key was stored and made active: \<open>rotate_encryption_keys\<close> returns nothing
  and retires nothing.
\<close>

lemma retention_filter_raises:
  "(k, v) \<in> set kvs \<Longrightarrow> k \<noteq> active \<Longrightarrow> retention_filter active kvs = Inl AttributeError"
  by (induction active kvs rule: retention_filter.induct) auto

lemma update_keeps_others:
  "(k, v) \<in> set al \<Longrightarrow> k \<noteq> k' \<Longrightarrow> (k, v) \<in> set (AList.update k' v' al)"
  by (induction al) auto

lemma rotate_encryption_keys_raises:
  assumes "KEY_ROTATION_DAYS \<le> (now - last_rotation cfg) div 86400"
    and "(k, v) \<in> set (encryption_keys cfg)" and "k \<noteq> new_key_id"
  shows "rotate_encryption_keys cfg now new_key_id new_key =
     (Inl AttributeError,
      cfg\<lparr>encryption_keys := AList.update new_key_id new_key (encryption_keys cfg),
          active_key_id := new_key_id, last_rotation := now\<rparr>)"
proof -
  from assms(2,3) have "(k, v) \<in> set (AList.update new_key_id new_key (encryption_keys cfg))"
    by (rule update_keeps_others)
  then have "retention_filter new_key_id (AList.update new_key_id new_key (encryption_keys cfg))
      = Inl AttributeError"
    using assms(3) by (rule retention_filter_raises)
  with assms(1) show ?thesis
    by (simp add: rotate_encryption_keys_def Let_def)
qed

text \<open>
  C5. A fresh \<open>SecurityConfig\<close> rotated after 30 days raises \<open>AttributeError\<close>, and so
  does the next rotation, which leaves three keys in the store. \<open>DataEncryption\<close> keeps
  the new key only: what it sealed before \<open>rotate_key\<close> no longer decrypts after it.
\<close>

theorem rotation_retention_failing_input:
  "rotate_encryption_keys (SecurityConfig_init 0 ''key-0'' scenario_key) 2592000 ''key-1''
       scenario_key2 =
     (Inl AttributeError,
      \<lparr>encryption_keys = [(''key-0'', scenario_key), (''key-1'', scenario_key2)],
       active_key_id = ''key-1'', last_rotation = 2592000\<rparr>) \<and>
   rotate_encryption_keys
       \<lparr>encryption_keys = [(''key-0'', scenario_key), (''key-1'', scenario_key2)],
        active_key_id = ''key-1'', last_rotation = 2592000\<rparr> 5184000 ''key-2'' scenario_key =
     (Inl AttributeError,
      \<lparr>encryption_keys = [(''key-0'', scenario_key), (''key-1'', scenario_key2),
                          (''key-2'', scenario_key)],
       active_key_id = ''key-2'', last_rotation = 5184000\<rparr>) \<and>
   DataEncryption_encrypt demo_crypto [] \<lparr>encryption_key = scenario_key\<rparr> (replicate 12 7)
       (Bytes [0x68, 0x69]) = Inr ''BwcHBwcHBwcHBwcHfn8VFRUVFRUVFRUVFRUVFRUV'' \<and>
   DataEncryption_rotate_key \<lparr>encryption_key = scenario_key\<rparr> scenario_key2 =
     (Inr scenario_key2, \<lparr>encryption_key = scenario_key2\<rparr>) \<and>
   DataEncryption_decrypt demo_crypto [] \<lparr>encryption_key = scenario_key2\<rparr>
       ''BwcHBwcHBwcHBwcHfn8VFRUVFRUVFRUVFRUVFRUV'' =
     Inl (ValidationException ''Authentication failed - data may be corrupted''
            ''crypto_005'' None)"
  by code_simp

section \<open>Authentication\<close>

text \<open>
  With five or more failures counted, a login fails as locked and the credential store
  is not consulted. With fewer, accepted credentials lead to the token step, whose first
  statement raises: the call fails, and the counter is neither cleared nor raised.
\<close>

lemma authenticate_user_locked:
  assumes "get_failed_attempts cl (cache am) now email = (n, st')" and "MAX_AUTH_ATTEMPTS \<le> n"
  shows "authenticate_user L cl verify_credentials am ctc True now uuid email password =
     (Inl (AuthenticationException
             ''Account temporarily locked due to multiple failed attempts'' AUTH_FAILED None),
      am\<lparr>cache := st'\<rparr>, ctc)"
  using assms by (simp add: authenticate_user_def authenticate_user_try_def)

lemma authenticate_user_accepted_fails:
  assumes "get_failed_attempts cl (cache am) now email = (n, st')" and "n < MAX_AUTH_ATTEMPTS"
    and "verify_credentials email password = Some user" and "user \<noteq> []"
  shows "authenticate_user L cl verify_credentials am ctc True now uuid email password =
     (Inl (AuthenticationException ''Authentication failed'' AUTH_FAILED None),
      am\<lparr>cache := st', credential_lookups := Suc (credential_lookups am)\<rparr>, ctc)"
  using assms
  by (simp add: authenticate_user_def authenticate_user_try_def issue_tokens_def
        create_access_token_def Let_def)

text \<open>
  C4. A first login with the right password, no failure counted and the rate limiter
  willing: \<open>authenticate_user\<close> reaches the credential store, then fails with the
  general \<open>Authentication failed\<close>; no token is minted or returned.
\<close>

theorem authenticate_user_success_path_failing_input:
  "authenticate_user scenario_jose redis_client scenario_store scenario_manager
       (TTLCache 1000 300) True 0 ''jti'' ''a@example.com'' ''correct horse'' =
     (Inl (AuthenticationException ''Authentication failed'' ''auth_001'' None),
      scenario_manager\<lparr>credential_lookups := 1\<rparr>, TTLCache 1000 300)"
  by (simp add: authenticate_user_def authenticate_user_try_def issue_tokens_def
        create_access_token_def Let_def scenario_store_def scenario_manager_def
        get_failed_attempts_def redis_client_def async_redis_client_def await_plain_def
        redis_live_def MAX_AUTH_ATTEMPTS_def AUTH_FAILED_def)

text \<open>
  Through a client whose calls can be awaited, five wrong passwords in a row count up
  to 5 and the next login, with the right password, fails as locked.
\<close>

lemmas login_simps =
  authenticate_user_def authenticate_user_try_def issue_tokens_def create_access_token_def
  Let_def scenario_store_def get_failed_attempts_def increment_failed_attempts_def
  redis_client_def async_redis_client_def await_plain_def redis_live_def
  MAX_AUTH_ATTEMPTS_def AUTH_FAILED_def

lemma failed_login_first:
  "fst (snd (authenticate_user scenario_jose async_redis_client scenario_store
               \<lparr>auth_jwt_handler = h, cache = [], credential_lookups = m\<rparr>
               ctc True 0 ''jti'' ''a@example.com'' ''wrong''))
   = \<lparr>auth_jwt_handler = h, cache = [(''failed_attempts:a@example.com'', RInt 1, Some 3600)],
      credential_lookups = Suc m\<rparr>"
  by (simp add: login_simps)

lemma failed_login_next:
  "n < 5 \<Longrightarrow>
   fst (snd (authenticate_user scenario_jose async_redis_client scenario_store
               \<lparr>auth_jwt_handler = h,
                cache = [(''failed_attempts:a@example.com'', RInt n, Some 3600)],
                credential_lookups = m\<rparr>
               ctc True 0 ''jti'' ''a@example.com'' ''wrong''))
   = \<lparr>auth_jwt_handler = h,
      cache = [(''failed_attempts:a@example.com'', RInt (n + 1), Some 3600)],
      credential_lookups = Suc m\<rparr>"
  by (simp add: login_simps)

lemma failed_logins_five:
  "failed_logins async_redis_client 5 scenario_manager =
     \<lparr>auth_jwt_handler = JWTHandler_init scenario_key,
      cache = [(''failed_attempts:a@example.com'', RInt 5, Some 3600)],
      credential_lookups = 5\<rparr>"
  by (simp add: eval_nat_numeral scenario_manager_def failed_login_first failed_login_next)

lemma lockout_after_five_failures:
  "authenticate_user scenario_jose async_redis_client scenario_store
       (failed_logins async_redis_client 5 scenario_manager)
       (TTLCache 1000 300) True 0 ''jti'' ''a@example.com'' ''correct horse'' =
     (Inl (AuthenticationException
             ''Account temporarily locked due to multiple failed attempts'' ''auth_001'' None),
      failed_logins async_redis_client 5 scenario_manager, TTLCache 1000 300)"
  by (simp only: failed_logins_five) (simp add: login_simps)

text \<open>
  Through the client the manager builds, every awaited cache call raises after its
  command has run, and the helpers swallow the exception: the counter is stored (with
  no expiry, since \<open>EXPIRE\<close> is never reached) but always read as 0. After five wrong
  passwords the next login is not locked; it reaches the credential store a sixth time.
\<close>

lemma get_failed_attempts_sync: "get_failed_attempts redis_client st now email = (0, st)"
  by (simp add: get_failed_attempts_def redis_client_def async_redis_client_def
        await_plain_def)

lemma failed_login_sync_first:
  "fst (snd (authenticate_user scenario_jose redis_client scenario_store
               \<lparr>auth_jwt_handler = h, cache = [], credential_lookups = m\<rparr>
               ctc True 0 ''jti'' ''a@example.com'' ''wrong''))
   = \<lparr>auth_jwt_handler = h, cache = [(''failed_attempts:a@example.com'', RInt 1, None)],
      credential_lookups = Suc m\<rparr>"
  by (simp add: login_simps)

lemma failed_login_sync_next:
  "fst (snd (authenticate_user scenario_jose redis_client scenario_store
               \<lparr>auth_jwt_handler = h,
                cache = [(''failed_attempts:a@example.com'', RInt n, None)],
                credential_lookups = m\<rparr>
               ctc True 0 ''jti'' ''a@example.com'' ''wrong''))
   = \<lparr>auth_jwt_handler = h,
      cache = [(''failed_attempts:a@example.com'', RInt (n + 1), None)],
      credential_lookups = Suc m\<rparr>"
  by (simp add: login_simps)

lemma failed_logins_five_sync:
  "failed_logins redis_client 5 scenario_manager =
     \<lparr>auth_jwt_handler = JWTHandler_init scenario_key,
      cache = [(''failed_attempts:a@example.com'', RInt 5, None)],
      credential_lookups = 5\<rparr>"
  by (simp add: eval_nat_numeral scenario_manager_def failed_login_sync_first
        failed_login_sync_next)

lemma lockout_never_engages:
  "authenticate_user scenario_jose redis_client scenario_store
       (failed_logins redis_client 5 scenario_manager)
       (TTLCache 1000 300) True 0 ''jti'' ''a@example.com'' ''correct horse'' =
     (Inl (AuthenticationException ''Authentication failed'' ''auth_001'' None),
      (failed_logins redis_client 5 scenario_manager)\<lparr>credential_lookups := 6\<rparr>,
      TTLCache 1000 300)"
  by (simp only: failed_logins_five_sync) (simp add: login_simps)

text \<open>
  With the source's own \<open>_verify_credentials\<close>, every login that gets as far as the
  credential check is counted as a failure.
\<close>

lemma stub_rejects_everyone:
  "authenticate_user scenario_jose redis_client verify_credentials_stub scenario_manager
       (TTLCache 1000 300) True 0 ''jti'' ''a@example.com'' ''correct horse'' =
     (Inl (AuthenticationException ''Invalid credentials'' ''auth_001'' None),
      scenario_manager\<lparr>cache := [(''failed_attempts:a@example.com'', RInt 1, None)],
                        credential_lookups := 1\<rparr>, TTLCache 1000 300)"
  by (simp add: login_simps verify_credentials_stub_def scenario_manager_def)

end
